theory Spec2Isabelle
  imports Main
begin

section \<open>The torrent downloader \<^verbatim>\<open>ia.py\<close>: strings\<close>

text \<open>
  Python's \<^verbatim>\<open>str\<close> is a sequence of code points. A \<^typ>\<open>char\<close> here is one code
  point below 256, so \<^typ>\<open>string\<close> covers the texts whose code points all lie in that
  range; on it the three string methods the program calls are written out as Python
  defines them.
\<close>

definition code_point :: "char \<Rightarrow> nat" where
  "code_point c = of_char c"

text \<open>
  The characters \<^verbatim>\<open>str.split()\<close> treats as separators: tab, line feed, vertical tab,
  form feed, carriage return, the four information separators, space, next line and
  the no-break space.
\<close>

definition is_space :: "char \<Rightarrow> bool" where
  "is_space c =
     (let n = code_point c
      in (9 \<le> n \<and> n \<le> 13) \<or> (28 \<le> n \<and> n \<le> 32) \<or> n = 133 \<or> n = 160)"

text \<open>
  \<^verbatim>\<open>str.lower()\<close>: the capital letters are A to Z and, above 127, U+00C0 to U+00DE
  without the multiplication sign U+00D7; each has its small letter 32 places on.
\<close>

definition is_upper :: "char \<Rightarrow> bool" where
  "is_upper c =
     (let n = code_point c
      in (65 \<le> n \<and> n \<le> 90) \<or> (192 \<le> n \<and> n \<le> 222 \<and> n \<noteq> 215))"

definition lower_char :: "char \<Rightarrow> char" where
  "lower_char c = (if is_upper c then char_of (code_point c + 32) else c)"

definition py_lower :: "string \<Rightarrow> string" where
  "py_lower s = map lower_char s"

text \<open>
  \<^verbatim>\<open>s.split()\<close> with no argument: the maximal runs of characters that are not
  whitespace, in order; \<open>cur\<close> is the run being read.
\<close>

fun split_ws :: "string \<Rightarrow> string \<Rightarrow> string list" where
  "split_ws cur [] = (if cur = [] then [] else [cur])"
| "split_ws cur (c # cs) =
     (if is_space c then (if cur = [] then split_ws [] cs else cur # split_ws [] cs)
      else split_ws (cur @ [c]) cs)"

definition py_split :: "string \<Rightarrow> string list" where
  "py_split s = split_ws [] s"

text \<open>
  \<^verbatim>\<open>s.split(sep)\<close> for a separator of one character: every separator ends a field,
  empty fields are kept, and the result is never empty.
\<close>

fun split_on :: "char \<Rightarrow> string \<Rightarrow> string \<Rightarrow> string list" where
  "split_on sep cur [] = [cur]"
| "split_on sep cur (c # cs) =
     (if c = sep then cur # split_on sep [] cs else split_on sep (cur @ [c]) cs)"

definition py_split_sep :: "char \<Rightarrow> string \<Rightarrow> string list" where
  "py_split_sep sep s = split_on sep [] s"

text \<open>\<^verbatim>\<open>s.endswith(suffix)\<close> and \<^verbatim>\<open>needle in s\<close> on strings.\<close>

definition endswith :: "string \<Rightarrow> string \<Rightarrow> bool" where
  "endswith s suf = (length suf \<le> length s \<and> drop (length s - length suf) s = suf)"

fun str_contains :: "string \<Rightarrow> string \<Rightarrow> bool" where
  "str_contains needle [] = (needle = [])"
| "str_contains needle (c # cs) =
     (take (length needle) (c # cs) = needle \<or> str_contains needle cs)"

text \<open>Decimal text of an integer, as an f-string renders \<^verbatim>\<open>{rows}\<close>.\<close>

definition digit_char :: "nat \<Rightarrow> char" where
  "digit_char d = char_of (48 + d)"

fun str_nat :: "nat \<Rightarrow> string" where
  "str_nat n = (if n < 10 then [digit_char n] else str_nat (n div 10) @ [digit_char (n mod 10)])"

declare str_nat.simps [simp del]

definition str_int :: "int \<Rightarrow> string" where
  "str_int i = (if i < 0 then CHR ''-'' # str_nat (nat (- i)) else str_nat (nat i))"

section \<open>The matcher\<close>

text \<open>
  \<^verbatim>\<open>fuzz.partial_ratio\<close> belongs to the fuzzywuzzy library, not to the program: it is a
  parameter \<open>ratio\<close> of the model, a score for a term against a text.
  \<^verbatim>\<open>
  def match_terms(text, keyword, threshold=70):
      terms = keyword.lower().split()
      for term in terms:
          if fuzz.partial_ratio(term, text.lower()) < threshold:
              return False
      return True
  \<close>
\<close>

fun terms_loop :: "(string \<Rightarrow> string \<Rightarrow> int) \<Rightarrow> string \<Rightarrow> int \<Rightarrow> string list \<Rightarrow> bool" where
  "terms_loop ratio text threshold [] = True"
| "terms_loop ratio text threshold (term # terms) =
     (if ratio term (py_lower text) < threshold then False
      else terms_loop ratio text threshold terms)"

definition match_terms :: "(string \<Rightarrow> string \<Rightarrow> int) \<Rightarrow> string \<Rightarrow> string \<Rightarrow> int \<Rightarrow> bool" where
  "match_terms ratio text keyword threshold =
     terms_loop ratio text threshold (py_split (py_lower keyword))"

section \<open>JSON values and exceptions\<close>

text \<open>
  What \<^verbatim>\<open>response.json()\<close> returns: a dictionary is kept as its list of items, one per
  key. Every operation the program applies to such a value is written with the
  exception Python raises when the value has the wrong shape.
\<close>

datatype json =
    JNull
  | JBool bool
  | JNum int
  | JStr string
  | JArr "json list"
  | JObj "(string \<times> json) list"

datatype exn =
    ConnectionError
  | Timeout
  | ChunkedEncodingError
  | HTTPError int
  | JSONDecodeError
  | KeyError string
  | TypeError
  | AttributeError
  | OSError
  | MarkupError string

text \<open>\<^verbatim>\<open>key in v\<close>\<close>

definition py_contains :: "string \<Rightarrow> json \<Rightarrow> exn + bool" where
  "py_contains key v =
     (case v of
        JObj items \<Rightarrow> Inr (map_of items key \<noteq> None)
      | JArr xs \<Rightarrow> Inr (JStr key \<in> set xs)
      | JStr s \<Rightarrow> Inr (str_contains key s)
      | _ \<Rightarrow> Inl TypeError)"

text \<open>\<^verbatim>\<open>v[key]\<close> for a string key\<close>

definition py_getitem :: "json \<Rightarrow> string \<Rightarrow> exn + json" where
  "py_getitem v key =
     (case v of
        JObj items \<Rightarrow> (case map_of items key of None \<Rightarrow> Inl (KeyError key) | Some x \<Rightarrow> Inr x)
      | _ \<Rightarrow> Inl TypeError)"

text \<open>\<^verbatim>\<open>v.get(key, default)\<close>: only a dictionary has the method.\<close>

definition py_get :: "json \<Rightarrow> string \<Rightarrow> json \<Rightarrow> exn + json" where
  "py_get v key dflt =
     (case v of
        JObj items \<Rightarrow> Inr (case map_of items key of None \<Rightarrow> dflt | Some x \<Rightarrow> x)
      | _ \<Rightarrow> Inl AttributeError)"

text \<open>\<^verbatim>\<open>for x in v\<close>: a list gives its elements, a dictionary its keys, a string its characters.\<close>

definition py_iter :: "json \<Rightarrow> exn + json list" where
  "py_iter v =
     (case v of
        JArr xs \<Rightarrow> Inr xs
      | JObj items \<Rightarrow> Inr (map (\<lambda>kv. JStr (fst kv)) items)
      | JStr s \<Rightarrow> Inr (map (\<lambda>c. JStr [c]) s)
      | _ \<Rightarrow> Inl TypeError)"

text \<open>\<^verbatim>\<open>len(v)\<close>\<close>

definition py_len :: "json \<Rightarrow> exn + nat" where
  "py_len v =
     (case v of
        JArr xs \<Rightarrow> Inr (length xs)
      | JObj items \<Rightarrow> Inr (length items)
      | JStr s \<Rightarrow> Inr (length s)
      | _ \<Rightarrow> Inl TypeError)"

text \<open>\<^verbatim>\<open>v.endswith(suffix)\<close>: only a string has the method.\<close>

definition py_endswith :: "json \<Rightarrow> string \<Rightarrow> exn + bool" where
  "py_endswith v suf = (case v of JStr s \<Rightarrow> Inr (endswith s suf) | _ \<Rightarrow> Inl AttributeError)"

section \<open>The environment: network, file system, configuration\<close>

text \<open>
  A response of \<^verbatim>\<open>requests.get\<close>: its status code, the chunks \<^verbatim>\<open>iter_content(1024)\<close>
  yields, the exception the stream raises after them (if the connection breaks), and
  the document \<^verbatim>\<open>.json()\<close> parses from the body (\<open>None\<close>: the body is not JSON).
\<close>

record response =
  status_code :: int
  body_chunks :: "string list"
  stream_fault :: "exn option"
  json_doc :: "json option"

datatype get_result = GetRaises exn | Responds response

text \<open>
  The environment of a run. \<open>http_get url n\<close> is what \<^verbatim>\<open>requests.get(url, ...)\<close> does
  when \<open>n\<close> requests were made before it (a timeout is one of the exceptions it
  raises). \<open>can_open path\<close> says whether the operating system lets
  \<^verbatim>\<open>open(path, 'wb')\<close> create the file (the directory is there, permissions allow).
  \<open>console_print line\<close> is the exception \<^verbatim>\<open>console.print(line)\<close> raises, if any: the
  rich library reads the line as markup and raises \<^verbatim>\<open>MarkupError\<close>, with a message that
  quotes the tag, on a closing tag that closes nothing. \<open>exn_text\<close> is Python's
  \<^verbatim>\<open>str()\<close> of an exception of a library, \<open>partial_ratio\<close> is fuzzywuzzy's score,
  \<open>py_str\<close> is \<^verbatim>\<open>str()\<close> of a JSON value that is not a string, and the last two fields
  are the values read from \<^verbatim>\<open>settings.ini\<close> at import.
\<close>

record env =
  http_get :: "string \<Rightarrow> nat \<Rightarrow> get_result"
  can_open :: "string \<Rightarrow> bool"
  console_print :: "string \<Rightarrow> exn option"
  exn_text :: "exn \<Rightarrow> string"
  partial_ratio :: "string \<Rightarrow> string \<Rightarrow> int"
  py_str :: "json \<Rightarrow> string"
  download_dir :: string
  max_retries :: int

text \<open>
  The file system maps a path, as the program spells it, to a directory or to a file
  with its bytes. A path that ends in a separator names a directory.
\<close>

datatype node = Dir | File string

type_synonym filesystem = "string \<Rightarrow> node option"

definition strip_slashes :: "string \<Rightarrow> string" where
  "strip_slashes p = rev (dropWhile (\<lambda>c. c = CHR ''/'') (rev p))"

definition stat :: "filesystem \<Rightarrow> string \<Rightarrow> node option" where
  "stat fs p =
     (if p = [] then None
      else if last p = CHR ''/'' then
        (if strip_slashes p = [] then Some Dir
         else (case fs (strip_slashes p) of Some Dir \<Rightarrow> Some Dir | _ \<Rightarrow> None))
      else fs p)"

definition os_path_exists :: "filesystem \<Rightarrow> string \<Rightarrow> bool" where
  "os_path_exists fs p = (stat fs p \<noteq> None)"

text \<open>\<^verbatim>\<open>os.path.join(a, b)\<close> of \<^verbatim>\<open>posixpath\<close>, for two components.\<close>

definition os_path_join :: "string \<Rightarrow> string \<Rightarrow> string" where
  "os_path_join a b =
     (if b \<noteq> [] \<and> hd b = CHR ''/'' then b
      else if a = [] \<or> last a = CHR ''/'' then a @ b
      else a @ ''/'' @ b)"

text \<open>
  \<^verbatim>\<open>open(path, 'wb')\<close>: fails on the empty path, on a path that names a directory and
  where the environment refuses; otherwise the file is there and empty.
\<close>

definition open_wb :: "env \<Rightarrow> filesystem \<Rightarrow> string \<Rightarrow> exn + filesystem" where
  "open_wb env fs p =
     (if p = [] \<or> last p = CHR ''/'' \<or> fs p = Some Dir \<or> \<not> can_open env p then Inl OSError
      else Inr (fs(p \<mapsto> File [])))"

definition write_chunk :: "filesystem \<Rightarrow> string \<Rightarrow> string \<Rightarrow> filesystem" where
  "write_chunk fs p chunk =
     (case fs p of Some (File bytes) \<Rightarrow> fs(p \<mapsto> File (bytes @ chunk)) | _ \<Rightarrow> fs)"

fun write_chunks :: "filesystem \<Rightarrow> string \<Rightarrow> string list \<Rightarrow> filesystem" where
  "write_chunks fs p [] = fs"
| "write_chunks fs p (chunk # chunks) = write_chunks (write_chunk fs p chunk) p chunks"

section \<open>The state of a run\<close>

text \<open>
  Each \<^verbatim>\<open>logging\<close> call is one event; writing to the log does not raise. The state
  of a run is the file system, the URLs requested so far and the events so far.
\<close>

datatype level = INFO | WARNING | ERROR

datatype message =
    AlreadyExists string
  | Downloaded string
  | FailedStatus string int
  | ErrorDownloading string exn
  | Retrying nat int
  | FailedAfter int string
  | Searching string
  | Found nat
  | SearchFailed exn
  | FetchingMetadata string
  | NoMatching string "string option"
  | NoFiles string
  | MetadataFailed string exn

type_synonym event = "level \<times> message"

record world =
  disk :: filesystem
  requests :: "string list"
  events :: "event list"

definition log_event :: "event \<Rightarrow> world \<Rightarrow> world" where
  "log_event e w = w\<lparr>events := events w @ [e]\<rparr>"

definition requests_get :: "env \<Rightarrow> string \<Rightarrow> world \<Rightarrow> get_result \<times> world" where
  "requests_get env url w =
     (http_get env url (length (requests w)), w\<lparr>requests := requests w @ [url]\<rparr>)"

section \<open>The console lines\<close>

text \<open>
  The texts the program hands to \<^verbatim>\<open>console.print\<close>, markup included, wherever a value
  of the program's stands in the line. \<open>exception_text\<close> is \<^verbatim>\<open>{e}\<close> in an f-string.
\<close>

definition exception_text :: "env \<Rightarrow> exn \<Rightarrow> string" where
  "exception_text env e = (case e of MarkupError message \<Rightarrow> message | _ \<Rightarrow> exn_text env e)"

definition skip_line :: "string \<Rightarrow> string" where
  "skip_line filename = ''[yellow]File already exists, skipping download:[/yellow] '' @ filename"

definition downloaded_line :: "string \<Rightarrow> string" where
  "downloaded_line filename = ''[green]Downloaded:[/green] '' @ filename"

definition failed_status_line :: "string \<Rightarrow> int \<Rightarrow> string" where
  "failed_status_line url status =
     ''[red]Failed to download:[/red] '' @ url @ '' (status code: '' @ str_int status @ '')''"

definition error_line :: "env \<Rightarrow> string \<Rightarrow> exn \<Rightarrow> string" where
  "error_line env url e = ''[red]Error downloading '' @ url @ '':[/red] '' @ exception_text env e"

definition failed_after_line :: "int \<Rightarrow> string \<Rightarrow> string" where
  "failed_after_line retries url =
     ''[red]Failed to download after '' @ str_int retries @ '' attempts:[/red] '' @ url"

definition fetching_line :: "string \<Rightarrow> string" where
  "fetching_line identifier = ''[cyan]Fetching metadata for:[/cyan] '' @ identifier"

definition no_matching_line :: "string \<Rightarrow> string option \<Rightarrow> string" where
  "no_matching_line identifier keyword =
     ''[yellow]No matching torrents found for identifier:[/yellow] '' @ identifier
       @ '' with keyword: '' @ (case keyword of None \<Rightarrow> ''None'' | Some k \<Rightarrow> k)"

definition no_files_line :: "string \<Rightarrow> string" where
  "no_files_line identifier = ''[yellow]No files found for identifier:[/yellow] '' @ identifier"

definition metadata_failed_line :: "env \<Rightarrow> string \<Rightarrow> exn \<Rightarrow> string" where
  "metadata_failed_line env identifier e =
     ''[red]Failed to get metadata for:[/red] '' @ identifier @ '': '' @ exception_text env e"

section \<open>\<^verbatim>\<open>download_file\<close>\<close>

text \<open>
  \<^verbatim>\<open>
  def download_file(url, dest_folder, retries=max_retries):
      filename = os.path.join(dest_folder, url.split('/')[-1])
      if os.path.exists(filename):
          logging.info(f"File already exists, skipping download: {filename}")
          console.print(f"[yellow]File already exists, skipping download:[/yellow] {filename}")
          return
      for attempt in range(retries):
          try:
              response = requests.get(url, stream=True, timeout=10)
              if response.status_code == 200:
                  with open(filename, 'wb') as file:
                      for chunk in response.iter_content(1024):
                          file.write(chunk)
                  logging.info(f"Downloaded: {filename}")
                  console.print(f"[green]Downloaded:[/green] {filename}")
                  return
              else:
                  logging.error(f"Failed to download: {url} (status code: {response.status_code})")
                  console.print(f"[red]Failed to download:[/red] {url} (status code: {response.status_code})")
          except Exception as e:
              logging.error(f"Error downloading {url}: {e}")
              console.print(f"[red]Error downloading {url}:[/red] {e}")
          logging.info(f"Retrying ({attempt + 1}/{retries})...")
      logging.error(f"Failed to download after {retries} attempts: {url}")
      console.print(f"[red]Failed to download after {retries} attempts:[/red] {url}")
  \<close>
  The function returns \<^verbatim>\<open>None\<close> on every path. Its result here is the exception that
  leaves it, if any, and the state it leaves.
\<close>

definition destination :: "string \<Rightarrow> string \<Rightarrow> string" where
  "destination dest_folder url = os_path_join dest_folder (last (py_split_sep CHR ''/'' url))"

text \<open>
  What one pass of the loop body does next: return from the function, go on to the
  \<^verbatim>\<open>Retrying\<close> line, or leave the function with an exception.
\<close>

datatype flow = Returned | Retry | Raised exn

text \<open>
  The \<^verbatim>\<open>except\<close> handler: it logs the error and prints it; an exception of the print
  is raised inside the handler, so nothing catches it.
\<close>

definition handle_error :: "env \<Rightarrow> string \<Rightarrow> exn \<Rightarrow> world \<Rightarrow> flow \<times> world" where
  "handle_error env url e w =
     (case console_print env (error_line env url e) of
        None \<Rightarrow> (Retry, log_event (ERROR, ErrorDownloading url e) w)
      | Some e' \<Rightarrow> (Raised e', log_event (ERROR, ErrorDownloading url e) w))"

text \<open>
  The body of the \<^verbatim>\<open>try\<close> with its handler. Every exception raised in the body, those
  of its two prints included, goes to the handler.
\<close>

definition attempt_download :: "env \<Rightarrow> string \<Rightarrow> string \<Rightarrow> world \<Rightarrow> flow \<times> world" where
  "attempt_download env url filename w =
     (case requests_get env url w of
        (GetRaises e, w1) \<Rightarrow> handle_error env url e w1
      | (Responds r, w1) \<Rightarrow>
          if status_code r = 200 then
            (case open_wb env (disk w1) filename of
               Inl e \<Rightarrow> handle_error env url e w1
             | Inr fs \<Rightarrow>
                 (let w2 = w1\<lparr>disk := write_chunks fs filename (body_chunks r)\<rparr>
                  in case stream_fault r of
                       Some e \<Rightarrow> handle_error env url e w2
                     | None \<Rightarrow>
                         (case console_print env (downloaded_line filename) of
                            None \<Rightarrow> (Returned, log_event (INFO, Downloaded filename) w2)
                          | Some e \<Rightarrow>
                              handle_error env url e
                                (log_event (INFO, Downloaded filename) w2))))
          else
            (case console_print env (failed_status_line url (status_code r)) of
               None \<Rightarrow> (Retry, log_event (ERROR, FailedStatus url (status_code r)) w1)
             | Some e \<Rightarrow>
                 handle_error env url e
                   (log_event (ERROR, FailedStatus url (status_code r)) w1)))"

text \<open>The \<^verbatim>\<open>for\<close> loop over \<^verbatim>\<open>range(retries)\<close>, with the lines after it as its end.\<close>

fun retry_loop ::
  "env \<Rightarrow> string \<Rightarrow> string \<Rightarrow> int \<Rightarrow> nat list \<Rightarrow> world \<Rightarrow> exn option \<times> world" where
  "retry_loop env url filename retries [] w =
     (console_print env (failed_after_line retries url),
      log_event (ERROR, FailedAfter retries url) w)"
| "retry_loop env url filename retries (attempt # rest) w =
     (case attempt_download env url filename w of
        (Returned, w1) \<Rightarrow> (None, w1)
      | (Raised e, w1) \<Rightarrow> (Some e, w1)
      | (Retry, w1) \<Rightarrow>
          retry_loop env url filename retries rest
            (log_event (INFO, Retrying (attempt + 1) retries) w1))"

definition download_file ::
  "env \<Rightarrow> string \<Rightarrow> string \<Rightarrow> int \<Rightarrow> world \<Rightarrow> exn option \<times> world" where
  "download_file env url dest_folder retries w =
     (let filename = destination dest_folder url
      in if os_path_exists (disk w) filename
         then (console_print env (skip_line filename),
               log_event (INFO, AlreadyExists filename) w)
         else retry_loop env url filename retries [0..<nat retries] w)"

section \<open>\<^verbatim>\<open>search_items\<close>\<close>

definition raise_for_status :: "response \<Rightarrow> exn + response" where
  "raise_for_status r =
     (if 400 \<le> status_code r \<and> status_code r < 600 then Inl (HTTPError (status_code r))
      else Inr r)"

definition response_json :: "response \<Rightarrow> exn + json" where
  "response_json r = (case json_doc r of None \<Rightarrow> Inl JSONDecodeError | Some j \<Rightarrow> Inr j)"

text \<open>
  \<^verbatim>\<open>
  def search_items(query, rows=1000):
      search_url = f"https://archive.org/advancedsearch.php?q={query}&fl[]=identifier&rows={rows}&output=json"
      logging.info(f"Searching for items with query: {search_url}")
      console.print(f"[cyan]Searching for items...[/cyan]")
      try:
          response = requests.get(search_url, timeout=10)
          response.raise_for_status()
          items = response.json().get('response', {}).get('docs', [])
          logging.info(f"Found {len(items)} items")
          console.print(f"[cyan]Found {len(items)} items[/cyan]")
          return items
      except Exception as e:
          logging.error(f"Failed to search items: {e}")
          console.print(f"[red]Failed to search items: {e}[/red]")
          return []
  \<close>
  The three console lines of this function hold no value of the program's: a fixed
  text, a count, and the text of an exception that \<^verbatim>\<open>requests\<close>, the JSON parser or
  Python raised in the \<^verbatim>\<open>try\<close>. They are taken to print.
\<close>

definition search_url :: "string \<Rightarrow> int \<Rightarrow> string" where
  "search_url query rows =
     ''https://archive.org/advancedsearch.php?q='' @ query @ ''&fl[]=identifier&rows=''
       @ str_int rows @ ''&output=json''"

definition search_docs :: "get_result \<Rightarrow> exn + json \<times> nat" where
  "search_docs g =
     (case g of
        GetRaises e \<Rightarrow> Inl e
      | Responds r \<Rightarrow>
          (case raise_for_status r of
             Inl e \<Rightarrow> Inl e
           | Inr _ \<Rightarrow>
               (case response_json r of
                  Inl e \<Rightarrow> Inl e
                | Inr j \<Rightarrow>
                    (case py_get j ''response'' (JObj []) of
                       Inl e \<Rightarrow> Inl e
                     | Inr resp \<Rightarrow>
                         (case py_get resp ''docs'' (JArr []) of
                            Inl e \<Rightarrow> Inl e
                          | Inr items \<Rightarrow>
                              (case py_len items of
                                 Inl e \<Rightarrow> Inl e
                               | Inr n \<Rightarrow> Inr (items, n)))))))"

definition search_items :: "env \<Rightarrow> string \<Rightarrow> int \<Rightarrow> world \<Rightarrow> json \<times> world" where
  "search_items env query rows w =
     (case requests_get env (search_url query rows)
             (log_event (INFO, Searching (search_url query rows)) w) of
        (g, w1) \<Rightarrow>
          (case search_docs g of
             Inr (items, n) \<Rightarrow> (items, log_event (INFO, Found n) w1)
           | Inl e \<Rightarrow> (JArr [], log_event (ERROR, SearchFailed e) w1)))"

section \<open>\<^verbatim>\<open>download_torrent\<close>\<close>

text \<open>
  \<^verbatim>\<open>
  def download_torrent(identifier, keyword=None):
      metadata_url = f"https://archive.org/metadata/{identifier}"
      logging.info(f"Fetching metadata for: {metadata_url}")
      console.print(f"[cyan]Fetching metadata for:[/cyan] {identifier}")
      try:
          response = requests.get(metadata_url, timeout=10)
          response.raise_for_status()
          metadata = response.json()
          if 'files' in metadata:
              torrent_files = [file for file in metadata['files'] if file['name'].endswith('.torrent')]
              if keyword:
                  torrent_files = [file for file in torrent_files if match_terms(file['name'], keyword)]
              if not torrent_files:
                  logging.warning(f"No matching torrents found for identifier: {identifier} with keyword: {keyword}")
                  console.print(f"[yellow]No matching torrents found for identifier:[/yellow] {identifier} with keyword: {keyword}")
              for file in torrent_files:
                  torrent_url = f"https://archive.org/download/{identifier}/{file['name']}"
                  download_file(torrent_url, download_dir)
          else:
              logging.warning(f"No files found for identifier: {identifier}")
              console.print(f"[yellow]No files found for identifier:[/yellow] {identifier}")
      except Exception as e:
          logging.error(f"Failed to get metadata for: {identifier}: {e}")
          console.print(f"[red]Failed to get metadata for:[/red] {identifier}: {e}")
  \<close>
  As for \<open>download_file\<close>, the result is the exception that leaves the function, if
  any, and the state it leaves.
\<close>

definition metadata_url :: "string \<Rightarrow> string" where
  "metadata_url identifier = ''https://archive.org/metadata/'' @ identifier"

definition format_value :: "env \<Rightarrow> json \<Rightarrow> string" where
  "format_value env v = (case v of JStr s \<Rightarrow> s | _ \<Rightarrow> py_str env v)"

definition torrent_url :: "env \<Rightarrow> string \<Rightarrow> json \<Rightarrow> string" where
  "torrent_url env identifier name =
     ''https://archive.org/download/'' @ identifier @ ''/'' @ format_value env name"

definition fetch_json :: "get_result \<Rightarrow> exn + json" where
  "fetch_json g =
     (case g of
        GetRaises e \<Rightarrow> Inl e
      | Responds r \<Rightarrow> (case raise_for_status r of Inl e \<Rightarrow> Inl e | Inr _ \<Rightarrow> response_json r))"

text \<open>The first comprehension: the entries whose name ends in \<^verbatim>\<open>.torrent\<close>.\<close>

fun torrent_entries :: "json list \<Rightarrow> exn + json list" where
  "torrent_entries [] = Inr []"
| "torrent_entries (file # rest) =
     (case py_getitem file ''name'' of
        Inl e \<Rightarrow> Inl e
      | Inr name \<Rightarrow>
          (case py_endswith name ''.torrent'' of
             Inl e \<Rightarrow> Inl e
           | Inr keep \<Rightarrow>
               (case torrent_entries rest of
                  Inl e \<Rightarrow> Inl e
                | Inr kept \<Rightarrow> Inr (if keep then file # kept else kept))))"

text \<open>
  \<^verbatim>\<open>match_terms(file['name'], keyword)\<close> on a JSON value: \<^verbatim>\<open>text.lower()\<close> is
  evaluated once per term, so a value that is not a string raises only when the
  keyword has a term.
\<close>

definition match_name :: "env \<Rightarrow> json \<Rightarrow> string \<Rightarrow> exn + bool" where
  "match_name env name keyword =
     (case name of
        JStr text \<Rightarrow> Inr (match_terms (partial_ratio env) text keyword 70)
      | _ \<Rightarrow> if py_split (py_lower keyword) = [] then Inr True else Inl AttributeError)"

text \<open>The second comprehension: the entries whose name the matcher accepts.\<close>

fun matching_entries :: "env \<Rightarrow> string \<Rightarrow> json list \<Rightarrow> exn + json list" where
  "matching_entries env keyword [] = Inr []"
| "matching_entries env keyword (file # rest) =
     (case py_getitem file ''name'' of
        Inl e \<Rightarrow> Inl e
      | Inr name \<Rightarrow>
          (case match_name env name keyword of
             Inl e \<Rightarrow> Inl e
           | Inr keep \<Rightarrow>
               (case matching_entries env keyword rest of
                  Inl e \<Rightarrow> Inl e
                | Inr kept \<Rightarrow> Inr (if keep then file # kept else kept))))"

text \<open>\<^verbatim>\<open>if keyword:\<close> holds for a keyword that is neither \<^verbatim>\<open>None\<close> nor empty.\<close>

definition truthy :: "string option \<Rightarrow> bool" where
  "truthy keyword = (case keyword of None \<Rightarrow> False | Some k \<Rightarrow> k \<noteq> [])"

definition select_torrents :: "env \<Rightarrow> json \<Rightarrow> string option \<Rightarrow> exn + json list" where
  "select_torrents env metadata keyword =
     (case py_getitem metadata ''files'' of
        Inl e \<Rightarrow> Inl e
      | Inr files \<Rightarrow>
          (case py_iter files of
             Inl e \<Rightarrow> Inl e
           | Inr entries \<Rightarrow>
               (case torrent_entries entries of
                  Inl e \<Rightarrow> Inl e
                | Inr torrent_files \<Rightarrow>
                    (case keyword of
                       Some k \<Rightarrow>
                         if truthy keyword then matching_entries env k torrent_files
                         else Inr torrent_files
                     | None \<Rightarrow> Inr torrent_files))))"

text \<open>
  The loop over \<^verbatim>\<open>torrent_files\<close>; it stops at the first exception, also one that
  leaves \<open>download_file\<close>.
\<close>

fun download_each :: "env \<Rightarrow> string \<Rightarrow> json list \<Rightarrow> world \<Rightarrow> exn option \<times> world" where
  "download_each env identifier [] w = (None, w)"
| "download_each env identifier (file # rest) w =
     (case py_getitem file ''name'' of
        Inl e \<Rightarrow> (Some e, w)
      | Inr name \<Rightarrow>
          (case download_file env (torrent_url env identifier name) (download_dir env)
                  (max_retries env) w of
             (Some e, w1) \<Rightarrow> (Some e, w1)
           | (None, w1) \<Rightarrow> download_each env identifier rest w1))"

text \<open>
  The body of the \<^verbatim>\<open>try\<close>: the exception raised in it, if any, and the state then.
  With no file selected the loop has nothing to do, so the warning and the loop are
  the two branches of one test.
\<close>

definition resolve_and_download ::
  "env \<Rightarrow> string \<Rightarrow> string option \<Rightarrow> world \<Rightarrow> exn option \<times> world" where
  "resolve_and_download env identifier keyword w =
     (case requests_get env (metadata_url identifier) w of
        (g, w1) \<Rightarrow>
          (case fetch_json g of
             Inl e \<Rightarrow> (Some e, w1)
           | Inr metadata \<Rightarrow>
               (case py_contains ''files'' metadata of
                  Inl e \<Rightarrow> (Some e, w1)
                | Inr False \<Rightarrow>
                    (console_print env (no_files_line identifier),
                     log_event (WARNING, NoFiles identifier) w1)
                | Inr True \<Rightarrow>
                    (case select_torrents env metadata keyword of
                       Inl e \<Rightarrow> (Some e, w1)
                     | Inr torrent_files \<Rightarrow>
                         if torrent_files = []
                         then (console_print env (no_matching_line identifier keyword),
                               log_event (WARNING, NoMatching identifier keyword) w1)
                         else download_each env identifier torrent_files w1))))"

text \<open>
  The whole function: the first two lines stand before the \<^verbatim>\<open>try\<close>, and the handler
  logs the exception of the body and prints it.
\<close>

definition download_torrent ::
  "env \<Rightarrow> string \<Rightarrow> string option \<Rightarrow> world \<Rightarrow> exn option \<times> world" where
  "download_torrent env identifier keyword w =
     (case console_print env (fetching_line identifier) of
        Some e \<Rightarrow> (Some e, log_event (INFO, FetchingMetadata (metadata_url identifier)) w)
      | None \<Rightarrow>
          (case resolve_and_download env identifier keyword
                  (log_event (INFO, FetchingMetadata (metadata_url identifier)) w) of
             (None, w1) \<Rightarrow> (None, w1)
           | (Some e, w1) \<Rightarrow>
               (console_print env (metadata_failed_line env identifier e),
                log_event (ERROR, MetadataFailed identifier e) w1)))"

section \<open>\<^verbatim>\<open>main\<close>\<close>

text \<open>
  \<^verbatim>\<open>
  def main(query, num_items, keyword=None):
      items = search_items(query, num_items)
      with Progress() as progress:
          task = progress.add_task("[cyan]Processing items...", total=len(items))
          with ThreadPoolExecutor(max_workers=5) as executor:
              for item in items:
                  identifier = item['identifier']
                  executor.submit(download_torrent, identifier, keyword)
                  progress.advance(task)
  \<close>
  The function has no \<^verbatim>\<open>return\<close>: its caller gets \<^verbatim>\<open>None\<close>, here \<open>Inr ()\<close>, or the
  exception that left the loop. The futures \<^verbatim>\<open>submit\<close> returns are dropped, and with
  them whatever a call returned or raised. The pool runs the submitted calls on up to
  five threads, each call being \<open>download_torrent\<close> on the shared state, and leaving the
  \<^verbatim>\<open>with\<close> block waits for them. How their steps interleave is not part of this
  model: the result of \<open>main\<close> is what its own thread does, that is the value or
  exception for the caller, the calls submitted in order (the identifier as the
  f-strings of \<open>download_torrent\<close> render it, and the keyword), and the state after the
  search.
\<close>

type_synonym call = "string \<times> string option"

fun submit_all :: "env \<Rightarrow> string option \<Rightarrow> json list \<Rightarrow> (exn + unit) \<times> call list" where
  "submit_all env keyword [] = (Inr (), [])"
| "submit_all env keyword (item # rest) =
     (case py_getitem item ''identifier'' of
        Inl e \<Rightarrow> (Inl e, [])
      | Inr identifier \<Rightarrow>
          (case submit_all env keyword rest of
             (result, calls) \<Rightarrow> (result, (format_value env identifier, keyword) # calls)))"

definition main ::
  "env \<Rightarrow> string \<Rightarrow> int \<Rightarrow> string option \<Rightarrow> world \<Rightarrow> (exn + unit) \<times> call list \<times> world" where
  "main env query num_items keyword w =
     (case search_items env query num_items w of
        (items, w1) \<Rightarrow>
          (case py_len items of
             Inl e \<Rightarrow> (Inl e, [], w1)
           | Inr count \<Rightarrow>
               (case py_iter items of
                  Inl e \<Rightarrow> (Inl e, [], w1)
                | Inr its \<Rightarrow>
                    (case submit_all env keyword its of
                       (result, calls) \<Rightarrow> (result, calls, w1)))))"

section \<open>Readings of one download attempt\<close>

text \<open>
  Three readings of an attempt of \<^verbatim>\<open>download_file\<close>, used to state what the retry loop
  does. An attempt fails when \<^verbatim>\<open>requests.get\<close> raises, when the status is not 200, when
  the destination cannot be opened, or when the stream breaks. \<open>observed_error\<close> is the
  line the attempt logs, the status received or the exception raised, and
  \<open>attempt_line\<close> is the line it prints on the console.
\<close>

definition fetch_fails :: "env \<Rightarrow> string \<Rightarrow> get_result \<Rightarrow> bool" where
  "fetch_fails env filename g =
     (case g of
        GetRaises e \<Rightarrow> True
      | Responds r \<Rightarrow>
          status_code r \<noteq> 200 \<or> filename = [] \<or> last filename = CHR ''/''
          \<or> \<not> can_open env filename \<or> stream_fault r \<noteq> None)"

definition observed_error :: "env \<Rightarrow> string \<Rightarrow> string \<Rightarrow> get_result \<Rightarrow> message" where
  "observed_error env url filename g =
     (case g of
        GetRaises e \<Rightarrow> ErrorDownloading url e
      | Responds r \<Rightarrow>
          if status_code r \<noteq> 200 then FailedStatus url (status_code r)
          else if filename = [] \<or> last filename = CHR ''/'' \<or> \<not> can_open env filename
          then ErrorDownloading url OSError
          else (case stream_fault r of
                  Some e \<Rightarrow> ErrorDownloading url e
                | None \<Rightarrow> Downloaded filename))"

definition attempt_line :: "env \<Rightarrow> string \<Rightarrow> string \<Rightarrow> get_result \<Rightarrow> string" where
  "attempt_line env url filename g =
     (case g of
        GetRaises e \<Rightarrow> error_line env url e
      | Responds r \<Rightarrow>
          if status_code r \<noteq> 200 then failed_status_line url (status_code r)
          else if filename = [] \<or> last filename = CHR ''/'' \<or> \<not> can_open env filename
          then error_line env url OSError
          else (case stream_fault r of
                  Some e \<Rightarrow> error_line env url e
                | None \<Rightarrow> downloaded_line filename))"

section \<open>Readings of a metadata entry\<close>

text \<open>
  The name of an entry of \<^verbatim>\<open>metadata['files']\<close>, when the entry is a dictionary whose
  \<^verbatim>\<open>name\<close> is a string; and the names the resolver keeps: the name ends in the
  torrent suffix and, when a keyword is given, \<open>match_terms\<close> accepts it.
\<close>

definition entry_name :: "json \<Rightarrow> string option" where
  "entry_name file = (case py_getitem file ''name'' of Inr (JStr name) \<Rightarrow> Some name | _ \<Rightarrow> None)"

definition wanted :: "env \<Rightarrow> string option \<Rightarrow> string \<Rightarrow> bool" where
  "wanted env keyword name =
     (endswith name ''.torrent''
      \<and> (case keyword of None \<Rightarrow> True | Some k \<Rightarrow> match_terms (partial_ratio env) name k 70))"

section \<open>Concrete environments\<close>

text \<open>
  Inputs on which the theorems below are run. \<open>substring_ratio\<close> stands in for the
  library's score: 100 for a term the text contains, 0 otherwise. In \<open>server_env\<close> the
  console prints every line.
\<close>

definition substring_ratio :: "string \<Rightarrow> string \<Rightarrow> int" where
  "substring_ratio term text = (if str_contains term text then 100 else 0)"

definition plain_response :: "int \<Rightarrow> string list \<Rightarrow> get_result" where
  "plain_response code chunks =
     Responds \<lparr>status_code = code, body_chunks = chunks, stream_fault = None, json_doc = None\<rparr>"

definition server_env :: "(string \<Rightarrow> nat \<Rightarrow> get_result) \<Rightarrow> env" where
  "server_env server =
     \<lparr>http_get = server, can_open = (\<lambda>path. True), console_print = (\<lambda>line. None),
      exn_text = (\<lambda>e. ''error''), partial_ratio = substring_ratio,
      py_str = (\<lambda>v. ''?''), download_dir = ''torrent_files'', max_retries = 3\<rparr>"

text \<open>The download directory is there and empty; in \<open>stocked_world\<close> it holds one file.\<close>

definition fresh_world :: world where
  "fresh_world = \<lparr>disk = Map.empty(''torrent_files'' \<mapsto> Dir), requests = [], events = []\<rparr>"


definition a_url :: string where
  "a_url = ''https://archive.org/download/x/a.torrent''"

text \<open>
  Three servers: one answers every request with status 500, one with status 200 and a
  body of two chunks, one with status 203 and the same body.
\<close>

definition failing_env :: env where
  "failing_env = server_env (\<lambda>url n. plain_response 500 [])"

definition serving_env :: env where
  "serving_env = server_env (\<lambda>url n. plain_response 200 [''d8:'', ''announce''])"

definition proxied_env :: env where
  "proxied_env = server_env (\<lambda>url n. plain_response 203 [''d8:'', ''announce''])"

text \<open>
  An archive with one item \<open>x\<close>: the search answers with its identifier, the metadata
  request with the document given, every other request with the download answer given.
\<close>

definition json_response :: "json \<Rightarrow> get_result" where
  "json_response doc =
     Responds \<lparr>status_code = 200, body_chunks = [], stream_fault = None, json_doc = Some doc\<rparr>"

definition x_entries :: "json list" where
  "x_entries = [JObj [(''name'', JStr ''a.torrent'')], JObj [(''name'', JStr ''b.torrent'')],
                JObj [(''name'', JStr ''a_meta.xml'')]]"

definition x_metadata :: json where
  "x_metadata = JObj [(''created'', JNum 1), (''files'', JArr x_entries)]"

definition bare_metadata :: json where
  "bare_metadata = JObj [(''created'', JNum 1)]"

definition search_result :: json where
  "search_result = JObj [(''response'', JObj [(''docs'', JArr [JObj [(''identifier'', JStr ''x'')]])])]"

definition archive_server :: "get_result \<Rightarrow> json \<Rightarrow> get_result \<Rightarrow> string \<Rightarrow> nat \<Rightarrow> get_result" where
  "archive_server found metadata download url n =
     (if url = ''https://archive.org/advancedsearch.php?q=format:Torrent&fl[]=identifier&rows=1&output=json''
      then found
      else if url = ''https://archive.org/metadata/x'' then json_response metadata
      else download)"

definition archive_env :: "json \<Rightarrow> get_result \<Rightarrow> env" where
  "archive_env metadata download =
     server_env (archive_server (json_response search_result) metadata download)"

text \<open>The network is down: every request raises.\<close>

definition offline_env :: env where
  "offline_env = server_env (\<lambda>url n. GetRaises ConnectionError)"

text \<open>
  A console that stands in for rich on lines whose only closing tag with nothing to
  close is \<^verbatim>\<open>[/b]\<close>: it raises \<^verbatim>\<open>MarkupError\<close> with rich's message, which quotes the tag
  and gives its position in the line.
\<close>

fun find_sub :: "string \<Rightarrow> string \<Rightarrow> nat option" where
  "find_sub needle [] = (if needle = [] then Some 0 else None)"
| "find_sub needle (c # cs) =
     (if take (length needle) (c # cs) = needle then Some 0
      else map_option Suc (find_sub needle cs))"

definition closing_tag_message :: "nat \<Rightarrow> string" where
  "closing_tag_message position =
     ''closing tag '' @ [CHR 0x27] @ ''[/b]'' @ [CHR 0x27] @ '' at position ''
       @ str_nat position @ '' doesn'' @ [CHR 0x27] @ ''t match any open tag''"

definition rich_on_closing_b :: "string \<Rightarrow> exn option" where
  "rich_on_closing_b line =
     (case find_sub ''[/b]'' line of
        None \<Rightarrow> None
      | Some position \<Rightarrow> Some (MarkupError (closing_tag_message position)))"

definition markup_env :: "json \<Rightarrow> get_result \<Rightarrow> env" where
  "markup_env metadata download =
     (archive_env metadata download)\<lparr>console_print := rich_on_closing_b\<rparr>"

text \<open>
  A search answer of three entries, the second without an identifier, from a server
  that gives this answer to every request.
\<close>

definition gappy_search_result :: json where
  "gappy_search_result =
     JObj [(''response'', JObj [(''docs'',
       JArr [JObj [(''identifier'', JStr ''x'')], JObj [(''title'', JStr ''t'')],
             JObj [(''identifier'', JStr ''y'')]])])]"

definition gappy_env :: env where
  "gappy_env = server_env (\<lambda>url n. json_response gappy_search_result)"

text \<open>A download URL whose file name holds a closing tag.\<close>

definition markup_url :: string where
  "markup_url = ''https://archive.org/download/x/a[/b].torrent''"

section \<open>Properties of the string functions\<close>

text \<open>
  Every term of \<open>py_split\<close> is a non-empty run without whitespace, and the terms together
  are the text without its whitespace.
\<close>

lemma split_ws_concat:
  "concat (split_ws cur s) = cur @ filter (\<lambda>c. \<not> is_space c) s"
  by (induction s arbitrary: cur) auto

lemma split_ws_terms:
  "\<forall>c \<in> set cur. \<not> is_space c \<Longrightarrow> t \<in> set (split_ws cur s) \<Longrightarrow>
     t \<noteq> [] \<and> (\<forall>c \<in> set t. \<not> is_space c)"
proof (induction s arbitrary: cur)
  case Nil
  then show ?case by (cases "cur = []") auto
next
  case (Cons a s)
  show ?case
  proof (cases "is_space a")
    case True
    with Cons.prems have "t = cur \<and> cur \<noteq> [] \<or> t \<in> set (split_ws [] s)"
      by (cases "cur = []") auto
    with Cons.IH [of "[]"] Cons.prems(1) show ?thesis by auto
  next
    case False
    with Cons.prems have "t \<in> set (split_ws (cur @ [a]) s)" by simp
    moreover from False Cons.prems(1) have "\<forall>c \<in> set (cur @ [a]). \<not> is_space c" by simp
    ultimately show ?thesis using Cons.IH [of "cur @ [a]"] by blast
  qed
qed

lemma py_split_terms:
  "t \<in> set (py_split s) \<Longrightarrow> t \<noteq> [] \<and> (\<forall>c \<in> set t. \<not> is_space c)"
  using split_ws_terms [of "[]" t s] by (simp add: py_split_def)

lemma py_split_concat: "concat (py_split s) = filter (\<lambda>c. \<not> is_space c) s"
  by (simp add: py_split_def split_ws_concat)

lemma py_split_examples:
  "py_split ''  ubuntu   22.04 desktop '' = [''ubuntu'', ''22.04'', ''desktop'']"
  "py_split [CHR 0x09, CHR ''a'', CHR 0x0A, CHR 0xA0, CHR ''b''] = [''a'', ''b'']"
  "py_split [] = []"
  by code_simp+

lemma py_split_sep_examples:
  "py_split_sep CHR ''/'' ''https://archive.org/download/x/a.torrent'' =
     [''https:'', [], ''archive.org'', ''download'', ''x'', ''a.torrent'']"
  "py_split_sep CHR ''/'' ''x/'' = [''x'', []]"
  "py_split_sep CHR ''/'' [] = [[]]"
  by (simp_all add: py_split_sep_def)

lemma py_lower_examples:
  "py_lower ''Ubuntu-22.04 LTS'' = ''ubuntu-22.04 lts''"
  "py_lower [CHR 0xC9, CHR 0xD7, CHR 0xDF] = [CHR 0xE9, CHR 0xD7, CHR 0xDF]"
  by code_simp+

lemma str_int_examples:
  "str_int 1000 = ''1000''" "str_int (- 25) = ''-25''" "str_int 0 = ''0''"
  by code_simp+

section \<open>Properties of the matcher\<close>

lemma terms_loop_iff:
  "terms_loop ratio text threshold terms \<longleftrightarrow>
     (\<forall>term \<in> set terms. threshold \<le> ratio term (py_lower text))"
  by (induction terms) auto

text \<open>
  C2. For every text, keyword and threshold, \<open>match_terms\<close> is true exactly when every
  whitespace-separated term of the lower-cased keyword scores at least the threshold
  against the lower-cased text: all terms must match.
\<close>

theorem match_terms_conjunctive:
  "match_terms ratio text keyword threshold \<longleftrightarrow>
     (\<forall>term \<in> set (py_split (py_lower keyword)). threshold \<le> ratio term (py_lower text))"
  unfolding match_terms_def by (rule terms_loop_iff)

lemma terms_of_ubuntu_desktop:
  "py_split (py_lower ''Ubuntu  desktop'') = [''ubuntu'', ''desktop'']"
  by code_simp

lemma terms_of_ubuntu_server:
  "py_split (py_lower ''ubuntu server'') = [''ubuntu'', ''server'']"
  by code_simp

lemma lower_of_ubuntu_name:
  "py_lower ''ubuntu-22.04-desktop.torrent'' = ''ubuntu-22.04-desktop.torrent''"
  by code_simp

theorem match_terms_conjunctive_witness:
  "match_terms substring_ratio ''ubuntu-22.04-desktop.torrent'' ''Ubuntu  desktop'' 70
   \<and> \<not> match_terms substring_ratio ''ubuntu-22.04-desktop.torrent'' ''ubuntu server'' 70"
  using
    match_terms_conjunctive
      [of substring_ratio "''ubuntu-22.04-desktop.torrent''" "''Ubuntu  desktop''" 70]
    match_terms_conjunctive
      [of substring_ratio "''ubuntu-22.04-desktop.torrent''" "''ubuntu server''" 70]
  by (simp add: terms_of_ubuntu_desktop terms_of_ubuntu_server lower_of_ubuntu_name
      substring_ratio_def)

lemma space_not_upper: "is_space c \<Longrightarrow> \<not> is_upper c"
  by (auto simp: is_space_def is_upper_def Let_def)

lemma lower_char_space: "is_space c \<Longrightarrow> lower_char c = c"
  by (simp add: lower_char_def space_not_upper)

lemma split_ws_blank: "\<forall>c \<in> set s. is_space c \<Longrightarrow> split_ws [] s = []"
  by (induction s) auto

lemma py_lower_blank: "\<forall>c \<in> set s. is_space c \<Longrightarrow> py_lower s = s"
  by (induction s) (auto simp: py_lower_def lower_char_space)

section \<open>Properties of \<^verbatim>\<open>download_file\<close>\<close>

lemma write_chunks_file:
  "fs p = Some (File bytes) \<Longrightarrow> write_chunks fs p chunks = fs(p \<mapsto> File (bytes @ concat chunks))"
  by (induction chunks arbitrary: fs bytes) (auto simp: write_chunk_def)

lemma open_wb_Inr:
  "open_wb env fs p = Inr fs' \<Longrightarrow>
     p \<noteq> [] \<and> last p \<noteq> CHR ''/'' \<and> fs p \<noteq> Some Dir \<and> can_open env p \<and> fs' = fs(p \<mapsto> File [])"
  by (auto simp: open_wb_def split: if_splits)

lemma handle_error_state:
  "snd (handle_error env url e w) = log_event (ERROR, ErrorDownloading url e) w"
  "fst (handle_error env url e w) \<noteq> Returned"
  "console_print env (error_line env url e) = None \<Longrightarrow> fst (handle_error env url e w) = Retry"
  by (simp_all add: handle_error_def split: option.splits)


lemma attempt_download_requests:
  "requests (snd (attempt_download env url f w)) = requests w @ [url]"
  by (auto simp: attempt_download_def requests_get_def log_event_def Let_def handle_error_state
      split: get_result.splits sum.splits option.splits)




lemma attempt_download_failing:
  assumes "fetch_fails env f (http_get env url (length (requests w)))"
    and "console_print env (attempt_line env url f (http_get env url (length (requests w)))) = None"
    and "f = [] \<or> last f = CHR ''/'' \<or> disk w f \<noteq> Some Dir"
  shows "\<exists>w1. attempt_download env url f w = (Retry, w1)
     \<and> requests w1 = requests w @ [url]
     \<and> events w1 =
         events w @ [(ERROR, observed_error env url f (http_get env url (length (requests w))))]
     \<and> (f = [] \<or> last f = CHR ''/'' \<or> disk w1 f \<noteq> Some Dir)"
  using assms
  by (auto simp: attempt_download_def requests_get_def log_event_def Let_def fetch_fails_def
      observed_error_def attempt_line_def handle_error_def write_chunks_file open_wb_def
      split: get_result.splits sum.splits option.splits if_splits)

text \<open>
  When every attempt fails and the console prints every line, the loop runs through
  all of \<open>atts\<close>: one request, one error line and one \<^verbatim>\<open>Retrying\<close> line per attempt,
  then the failure line.
\<close>

lemma retry_loop_all_fail:
  assumes "f = [] \<or> last f = CHR ''/'' \<or> disk w f \<noteq> Some Dir"
    and "\<forall>k < length atts. fetch_fails env f (http_get env url (length (requests w) + k))
           \<and> console_print env
                (attempt_line env url f (http_get env url (length (requests w) + k))) = None"
    and "console_print env (failed_after_line r url) = None"
  shows "fst (retry_loop env url f r atts w) = None
     \<and> requests (snd (retry_loop env url f r atts w)) = requests w @ replicate (length atts) url
     \<and> events (snd (retry_loop env url f r atts w)) =
         events w
         @ concat (map (\<lambda>k. [(ERROR, observed_error env url f
                                        (http_get env url (length (requests w) + k))),
                               (INFO, Retrying (atts ! k + 1) r)]) [0..<length atts])
         @ [(ERROR, FailedAfter r url)]"
  using assms(1,2)
proof (induction atts arbitrary: w)
  case Nil
  show ?case by (simp add: log_event_def assms(3))
next
  case (Cons a atts)
  from Cons.prems(2) have now: "fetch_fails env f (http_get env url (length (requests w)))"
    "console_print env (attempt_line env url f (http_get env url (length (requests w)))) = None"
    by force+
  from attempt_download_failing [OF now Cons.prems(1)] obtain w1 where
    att: "attempt_download env url f w = (Retry, w1)"
    and w1: "requests w1 = requests w @ [url]"
    "events w1 =
       events w @ [(ERROR, observed_error env url f (http_get env url (length (requests w))))]"
    "f = [] \<or> last f = CHR ''/'' \<or> disk w1 f \<noteq> Some Dir"
    by blast
  define w2 where "w2 = log_event (INFO, Retrying (a + 1) r) w1"
  have w2: "requests w2 = requests w @ [url]"
    "events w2 =
       events w @ [(ERROR, observed_error env url f (http_get env url (length (requests w)))),
                   (INFO, Retrying (a + 1) r)]"
    "f = [] \<or> last f = CHR ''/'' \<or> disk w2 f \<noteq> Some Dir"
    using w1 by (simp_all add: w2_def log_event_def)
  have later: "\<forall>k < length atts. fetch_fails env f (http_get env url (length (requests w2) + k))
      \<and> console_print env
           (attempt_line env url f (http_get env url (length (requests w2) + k))) = None"
    using Cons.prems(2) by (auto simp: w2(1))
  have step: "retry_loop env url f r (a # atts) w = retry_loop env url f r atts w2"
    by (simp add: att w2_def)
  from Cons.IH [OF w2(3) later] show ?case
    unfolding step by (simp add: w2 map_upt_Suc replicate_append_same del: upt_Suc)
qed

lemma server_env_fields:
  "http_get (server_env server) = server"
  "can_open (server_env server) p"
  "console_print (server_env server) line = None"
  "partial_ratio (server_env server) = substring_ratio"
  "download_dir (server_env server) = ''torrent_files''"
  "max_retries (server_env server) = 3"
  by (simp_all add: server_env_def)

lemma destination_a_url: "destination ''torrent_files'' a_url = ''torrent_files/a.torrent''"
  by (simp add: destination_def a_url_def py_split_sep_def os_path_join_def)

lemmas run_defs = download_file_def destination_a_url os_path_exists_def stat_def
  attempt_download_def handle_error_def requests_get_def log_event_def open_wb_def
  write_chunk_def server_env_fields plain_response_def fresh_world_def Let_def


lemma first_run_failing:
  "download_file failing_env a_url ''torrent_files'' 3
      \<lparr>disk = Map.empty(''torrent_files'' \<mapsto> Dir), requests = rs, events = es\<rparr> =
     (None,
      \<lparr>disk = Map.empty(''torrent_files'' \<mapsto> Dir),
       requests = rs @ [a_url, a_url, a_url],
       events = es @ [(ERROR, FailedStatus a_url 500), (INFO, Retrying 1 3),
         (ERROR, FailedStatus a_url 500), (INFO, Retrying 2 3),
         (ERROR, FailedStatus a_url 500), (INFO, Retrying 3 3),
         (ERROR, FailedAfter 3 a_url)]\<rparr>)"
  by (simp add: run_defs failing_env_def upt_rec numeral_eq_Suc)

lemma first_run_failing_fresh:
  "download_file failing_env a_url ''torrent_files'' 3 fresh_world =
     (None,
      \<lparr>disk = Map.empty(''torrent_files'' \<mapsto> Dir),
       requests = [a_url, a_url, a_url],
       events = [(ERROR, FailedStatus a_url 500), (INFO, Retrying 1 3),
         (ERROR, FailedStatus a_url 500), (INFO, Retrying 2 3),
         (ERROR, FailedStatus a_url 500), (INFO, Retrying 3 3),
         (ERROR, FailedAfter 3 a_url)]\<rparr>)"
  using first_run_failing [of "[]" "[]"] by (simp add: fresh_world_def)

lemma first_run_offline:
  "download_file offline_env a_url ''torrent_files'' 3 fresh_world =
     (None,
      \<lparr>disk = Map.empty(''torrent_files'' \<mapsto> Dir),
       requests = [a_url, a_url, a_url],
       events = [(ERROR, ErrorDownloading a_url ConnectionError), (INFO, Retrying 1 3),
         (ERROR, ErrorDownloading a_url ConnectionError), (INFO, Retrying 2 3),
         (ERROR, ErrorDownloading a_url ConnectionError), (INFO, Retrying 3 3),
         (ERROR, FailedAfter 3 a_url)]\<rparr>)"
  by (simp add: run_defs offline_env_def upt_rec numeral_eq_Suc)




text \<open>The last attempt's two lines close the list of attempts.\<close>

lemma failure_tail:
  assumes "0 < n"
  shows "concat (map (\<lambda>k. [(ERROR, err k), (INFO, Retrying (k + 1) r)]) [0..<n]) =
     concat (map (\<lambda>k. [(ERROR, err k), (INFO, Retrying (k + 1) r)]) [0..<n - 1])
     @ [(ERROR, err (n - 1)), (INFO, Retrying n r)]"
proof -
  from assms obtain m where "n = Suc m" by (cases n) auto
  then show ?thesis by simp
qed

text \<open>
  C3, as the claim states it, fails: the run that gives up hands back no outcome that
  carries the last error. \<open>download_file\<close> returns \<^verbatim>\<open>None\<close> and its last line holds the
  number of attempts and the URL only. Against a server that answers 500 and with the
  network down, the attempts log different errors, and the value returned and the
  last line are the same.
\<close>

theorem failure_line_is_the_same_counterexample:
  "fst (download_file failing_env a_url ''torrent_files'' 3 fresh_world) = None
   \<and> fst (download_file offline_env a_url ''torrent_files'' 3 fresh_world) = None
   \<and> events (snd (download_file failing_env a_url ''torrent_files'' 3 fresh_world)) ! 4
       = (ERROR, FailedStatus a_url 500)
   \<and> events (snd (download_file offline_env a_url ''torrent_files'' 3 fresh_world)) ! 4
       = (ERROR, ErrorDownloading a_url ConnectionError)
   \<and> last (events (snd (download_file failing_env a_url ''torrent_files'' 3 fresh_world)))
       = (ERROR, FailedAfter 3 a_url)
   \<and> last (events (snd (download_file offline_env a_url ''torrent_files'' 3 fresh_world)))
       = (ERROR, FailedAfter 3 a_url)"
  by (simp add: first_run_failing_fresh first_run_offline)

text \<open>
  C3, amended. For every URL whose destination path does not exist, when every attempt
  fails (\<^verbatim>\<open>requests.get\<close> raises, the status is not 200, the file cannot be opened or the
  stream breaks) and the console prints the line of each attempt and the last line,
  \<open>download_file\<close> makes exactly \<open>retries\<close> requests, one after the other (none when
  \<open>retries\<close> is not positive). Each failed attempt logs the error it observed and then
  \<^verbatim>\<open>Retrying (k+1/retries)\<close>, so the attempts that remain go down by one with each
  failure. The run then logs \<^verbatim>\<open>Failed to download after ... attempts\<close> with the number
  of attempts and the URL, and returns \<^verbatim>\<open>None\<close>: the last error is not in what is
  returned nor in that line, it is the log line of the last attempt, two lines before.
\<close>

theorem download_file_exhausts_attempts:
  assumes "\<not> os_path_exists (disk w) (destination d url)"
    and "\<forall>k < nat retries.
           fetch_fails env (destination d url) (http_get env url (length (requests w) + k))
           \<and> console_print env
                (attempt_line env url (destination d url)
                   (http_get env url (length (requests w) + k))) = None"
    and "console_print env (failed_after_line retries url) = None"
  shows "fst (download_file env url d retries w) = None
     \<and> requests (snd (download_file env url d retries w)) =
         requests w @ replicate (nat retries) url
     \<and> events (snd (download_file env url d retries w)) =
         events w
         @ concat (map (\<lambda>k. [(ERROR, observed_error env url (destination d url)
                                        (http_get env url (length (requests w) + k))),
                               (INFO, Retrying (k + 1) retries)]) [0..<nat retries])
         @ [(ERROR, FailedAfter retries url)]
     \<and> (0 < retries \<longrightarrow>
          (\<exists>earlier. events (snd (download_file env url d retries w)) =
             earlier
             @ [(ERROR, observed_error env url (destination d url)
                          (http_get env url (length (requests w) + (nat retries - 1)))),
                (INFO, Retrying (nat retries) retries),
                (ERROR, FailedAfter retries url)]))"
proof -
  let ?f = "destination d url"
  let ?err = "\<lambda>k. observed_error env url ?f (http_get env url (length (requests w) + k))"
  from assms(1) have inv: "?f = [] \<or> last ?f = CHR ''/'' \<or> disk w ?f \<noteq> Some Dir"
    by (auto simp: os_path_exists_def stat_def split: if_splits)
  have "\<forall>k < length [0..<nat retries].
          fetch_fails env ?f (http_get env url (length (requests w) + k))
          \<and> console_print env (attempt_line env url ?f
                (http_get env url (length (requests w) + k))) = None"
    using assms(2) by simp
  from retry_loop_all_fail [OF inv this assms(3)]
  have loop: "fst (retry_loop env url ?f retries [0..<nat retries] w) = None"
    "requests (snd (retry_loop env url ?f retries [0..<nat retries] w)) =
        requests w @ replicate (nat retries) url"
    "events (snd (retry_loop env url ?f retries [0..<nat retries] w)) =
       events w
       @ concat (map (\<lambda>k. [(ERROR, ?err k),
                             (INFO, Retrying ([0..<nat retries] ! k + 1) retries)])
                  [0..<nat retries])
       @ [(ERROR, FailedAfter retries url)]"
    by simp_all
  have same: "map (\<lambda>k. [(ERROR, ?err k),
                          (INFO, Retrying ([0..<nat retries] ! k + 1) retries)]) [0..<nat retries]
      = map (\<lambda>k. [(ERROR, ?err k), (INFO, Retrying (k + 1) retries)]) [0..<nat retries]"
    by (rule map_cong) simp_all
  from assms(1) have run: "download_file env url d retries w =
      retry_loop env url ?f retries [0..<nat retries] w"
    by (simp add: download_file_def Let_def)
  have all: "events (snd (download_file env url d retries w)) =
      events w
      @ concat (map (\<lambda>k. [(ERROR, ?err k), (INFO, Retrying (k + 1) retries)]) [0..<nat retries])
      @ [(ERROR, FailedAfter retries url)]"
    unfolding run loop same by simp
  have tail: "\<exists>earlier. events (snd (download_file env url d retries w)) =
      earlier @ [(ERROR, ?err (nat retries - 1)), (INFO, Retrying (nat retries) retries),
                 (ERROR, FailedAfter retries url)]"
    if "0 < retries"
  proof -
    from that have "0 < nat retries" by simp
    from failure_tail [OF this, of ?err retries] show ?thesis
      unfolding all by (intro exI [of _ "events w @ concat (map (\<lambda>k. [(ERROR, ?err k),
          (INFO, Retrying (k + 1) retries)]) [0..<nat retries - 1])"]) simp
  qed
  from all tail show ?thesis
    unfolding run loop(1,2) by simp
qed

theorem download_file_exhausts_attempts_witness:
  "\<not> os_path_exists (disk fresh_world) (destination ''torrent_files'' a_url)
   \<and> list_all (\<lambda>k. fetch_fails failing_env (destination ''torrent_files'' a_url)
         (http_get failing_env a_url (length (requests fresh_world) + k))
       \<and> console_print failing_env (attempt_line failing_env a_url
           (destination ''torrent_files'' a_url)
           (http_get failing_env a_url (length (requests fresh_world) + k))) = None) [0, 1, 2]
   \<and> console_print failing_env (failed_after_line 3 a_url) = None
   \<and> fst (download_file failing_env a_url ''torrent_files'' 3 fresh_world) = None
   \<and> requests (snd (download_file failing_env a_url ''torrent_files'' 3 fresh_world)) =
       [a_url, a_url, a_url]
   \<and> events (snd (download_file failing_env a_url ''torrent_files'' 3 fresh_world)) =
       [(ERROR, FailedStatus a_url 500), (INFO, Retrying 1 3),
        (ERROR, FailedStatus a_url 500), (INFO, Retrying 2 3),
        (ERROR, FailedStatus a_url 500), (INFO, Retrying 3 3),
        (ERROR, FailedAfter 3 a_url)]"
  using download_file_exhausts_attempts [of fresh_world "''torrent_files''" a_url 3 failing_env]
  by (simp add: destination_a_url os_path_exists_def stat_def fresh_world_def fetch_fails_def
      observed_error_def failing_env_def server_env_fields plain_response_def upt_rec
      numeral_eq_Suc)

text \<open>
  Where the console raises, the attempts are cut short. The URL holds a closing tag
  and the server answers 500: the first attempt logs the status, its console line
  raises inside the \<^verbatim>\<open>try\<close>, the handler logs that error, and the handler's own console
  line raises out of \<open>download_file\<close>, after one request.
\<close>

lemma markup_env_console: "console_print (markup_env m d) = rich_on_closing_b"
  by (simp add: markup_env_def)

lemma markup_url_get: "http_get (markup_env m d) markup_url n = d"
  by (simp add: markup_env_def archive_env_def server_env_def archive_server_def markup_url_def)

lemma markup_url_destination: "destination ''torrent_files'' markup_url = ''torrent_files/b].torrent''"
  by code_simp

lemma error_line_markup:
  "error_line env url (MarkupError message) = ''[red]Error downloading '' @ url @ '':[/red] '' @ message"
  by (simp add: error_line_def exception_text_def)

lemma markup_url_positions:
  "rich_on_closing_b (failed_status_line markup_url 500) = Some (MarkupError (closing_tag_message 63))"
  "rich_on_closing_b (error_line env markup_url (MarkupError (closing_tag_message 63)))
     = Some (MarkupError (closing_tag_message 55))"
  unfolding error_line_markup by code_simp+

lemma markup_url_one_request:
  "download_file (markup_env x_metadata (plain_response 500 [])) markup_url ''torrent_files'' 3 fresh_world =
     (Some (MarkupError (closing_tag_message 55)),
      \<lparr>disk = Map.empty(''torrent_files'' \<mapsto> Dir),
       requests = [markup_url],
       events = [(ERROR, FailedStatus markup_url 500),
                 (ERROR, ErrorDownloading markup_url (MarkupError (closing_tag_message 63)))]\<rparr>)"
proof -
  have attempts: "[0..<nat 3] = [0, Suc 0, Suc (Suc 0)]" "[0..<3] = [0, Suc 0, Suc (Suc 0)]"
    by (simp_all add: upt_rec numeral_eq_Suc)
  show ?thesis
    by (simp add: download_file_def markup_url_destination os_path_exists_def stat_def attempts
        attempt_download_def handle_error_def requests_get_def log_event_def
        markup_url_get markup_env_console markup_url_positions plain_response_def fresh_world_def
        Let_def)
qed

text \<open>
  C5, as the claim states it, fails on a success status other than 200: the server
  answers 203 with a body; the attempt is logged as failed with that status and the
  destination file is not created.
\<close>

theorem non_200_success_status_counterexample:
  "download_file proxied_env a_url ''torrent_files'' 1 fresh_world =
     (None,
      fresh_world\<lparr>requests := [a_url],
        events := [(ERROR, FailedStatus a_url 203), (INFO, Retrying 1 1),
                   (ERROR, FailedAfter 1 a_url)]\<rparr>)
   \<and> disk (snd (download_file proxied_env a_url ''torrent_files'' 1 fresh_world))
       ''torrent_files/a.torrent'' = None"
  by (simp add: run_defs proxied_env_def upt_rec numeral_eq_Suc)

text \<open>
  C5, amended. One download attempt does not succeed on any response whose status is
  not exactly 200, and then leaves the file system as it was; where the console prints
  the line of the failed status, the attempt logs that status as an error, and the
  loop goes on to the next attempt. The attempt changes the file system only on a
  response with status 200. And for every response with status 200 whose destination
  can be opened, whose stream does not break and whose download line the console
  prints, it succeeds and the destination file holds the streamed body.
\<close>

theorem attempt_download_only_200:
  "(\<forall>r. http_get env url (length (requests w)) = Responds r \<and> status_code r \<noteq> 200 \<longrightarrow>
       fst (attempt_download env url f w) \<noteq> Returned
       \<and> disk (snd (attempt_download env url f w)) = disk w
       \<and> (console_print env (failed_status_line url (status_code r)) = None \<longrightarrow>
           attempt_download env url f w =
             (Retry, w\<lparr>requests := requests w @ [url],
                        events := events w @ [(ERROR, FailedStatus url (status_code r))]\<rparr>)))
   \<and> (disk (snd (attempt_download env url f w)) \<noteq> disk w \<longrightarrow>
        (\<exists>r. http_get env url (length (requests w)) = Responds r \<and> status_code r = 200))
   \<and> (\<forall>r fs. http_get env url (length (requests w)) = Responds r \<and> status_code r = 200
          \<and> open_wb env (disk w) f = Inr fs \<and> stream_fault r = None
          \<and> console_print env (downloaded_line f) = None \<longrightarrow>
       attempt_download env url f w =
         (Returned, w\<lparr>disk := (disk w)(f \<mapsto> File (concat (body_chunks r))),
                       requests := requests w @ [url],
                       events := events w @ [(INFO, Downloaded f)]\<rparr>))"
proof (intro conjI allI impI)
  fix r
  assume a: "http_get env url (length (requests w)) = Responds r \<and> status_code r \<noteq> 200"
  then show "fst (attempt_download env url f w) \<noteq> Returned"
    by (simp add: attempt_download_def requests_get_def handle_error_state
        split: option.splits)
  from a show "disk (snd (attempt_download env url f w)) = disk w"
    by (simp add: attempt_download_def requests_get_def handle_error_state log_event_def
        split: option.splits)
  assume "console_print env (failed_status_line url (status_code r)) = None"
  with a show "attempt_download env url f w =
      (Retry, w\<lparr>requests := requests w @ [url],
                 events := events w @ [(ERROR, FailedStatus url (status_code r))]\<rparr>)"
    by (simp add: attempt_download_def requests_get_def log_event_def)
next
  assume "disk (snd (attempt_download env url f w)) \<noteq> disk w"
  then show "\<exists>r. http_get env url (length (requests w)) = Responds r \<and> status_code r = 200"
    by (auto simp: attempt_download_def requests_get_def log_event_def handle_error_state
        split: get_result.splits if_splits sum.splits option.splits)
next
  fix r fs
  assume h: "http_get env url (length (requests w)) = Responds r \<and> status_code r = 200
      \<and> open_wb env (disk w) f = Inr fs \<and> stream_fault r = None
      \<and> console_print env (downloaded_line f) = None"
  then have "fs = (disk w)(f \<mapsto> File [])"
    using open_wb_Inr [of env "disk w" f fs] by simp
  with h show "attempt_download env url f w =
      (Returned, w\<lparr>disk := (disk w)(f \<mapsto> File (concat (body_chunks r))),
                    requests := requests w @ [url],
                    events := events w @ [(INFO, Downloaded f)]\<rparr>)"
    by (simp add: attempt_download_def requests_get_def log_event_def write_chunks_file)
qed

text \<open>The amended C5 on the three servers.\<close>

lemma first_attempt_serving:
  "attempt_download serving_env a_url ''torrent_files/a.torrent'' fresh_world =
     (Returned, \<lparr>disk = Map.empty(''torrent_files'' \<mapsto> Dir,
                      ''torrent_files/a.torrent'' \<mapsto> File ''d8:announce''),
             requests = [a_url], events = [(INFO, Downloaded ''torrent_files/a.torrent'')]\<rparr>)"
  by (simp add: run_defs serving_env_def)

lemma disk_changed_serving:
  "disk (snd (attempt_download serving_env a_url ''torrent_files/a.torrent'' fresh_world))
     \<noteq> disk fresh_world"
proof
  assume "disk (snd (attempt_download serving_env a_url ''torrent_files/a.torrent'' fresh_world))
     = disk fresh_world"
  then have "disk (snd (attempt_download serving_env a_url ''torrent_files/a.torrent'' fresh_world))
       ''torrent_files/a.torrent'' = disk fresh_world ''torrent_files/a.torrent''"
    by simp
  then show False
    unfolding first_attempt_serving by (simp add: fresh_world_def)
qed

theorem attempt_download_only_200_witness:
  "console_print proxied_env (failed_status_line a_url 203) = None
   \<and> attempt_download proxied_env a_url ''torrent_files/a.torrent'' fresh_world =
     (Retry, fresh_world\<lparr>requests := [a_url], events := [(ERROR, FailedStatus a_url 203)]\<rparr>)
   \<and> disk (snd (attempt_download serving_env a_url ''torrent_files/a.torrent'' fresh_world))
       \<noteq> disk fresh_world
   \<and> (\<exists>r. http_get serving_env a_url 0 = Responds r \<and> status_code r = 200)
   \<and> console_print serving_env (downloaded_line ''torrent_files/a.torrent'') = None
   \<and> attempt_download serving_env a_url ''torrent_files/a.torrent'' fresh_world =
     (Returned, \<lparr>disk = Map.empty(''torrent_files'' \<mapsto> Dir,
                      ''torrent_files/a.torrent'' \<mapsto> File ''d8:announce''),
             requests = [a_url], events = [(INFO, Downloaded ''torrent_files/a.torrent'')]\<rparr>)"
  using attempt_download_only_200 [of proxied_env a_url fresh_world "''torrent_files/a.torrent''"]
    attempt_download_only_200 [of serving_env a_url fresh_world "''torrent_files/a.torrent''"]
    disk_changed_serving
  by (simp add: proxied_env_def serving_env_def server_env_fields plain_response_def
      fresh_world_def open_wb_def)

text \<open>The last field of \<^verbatim>\<open>url.split('/')\<close>.\<close>

lemma split_on_nonempty: "split_on sep cur s \<noteq> []"
  by (induction s arbitrary: cur) auto

lemma split_on_no_sep: "sep \<notin> set s \<Longrightarrow> split_on sep cur s = [cur @ s]"
  by (induction s arbitrary: cur) auto

lemma last_split_on:
  "sep \<notin> set seg \<Longrightarrow> last (split_on sep cur (pre @ sep # seg)) = seg"
  by (induction pre arbitrary: cur) (auto simp: split_on_no_sep split_on_nonempty)

lemma strip_slashes_snoc:
  "d \<noteq> [] \<Longrightarrow> last d \<noteq> CHR ''/'' \<Longrightarrow> strip_slashes (d @ ''/'') = d"
  by (cases d rule: rev_cases) (auto simp: strip_slashes_def)

lemma stat_dir_slash:
  assumes "stat fs d = Some Dir"
  shows "stat fs (if last d = CHR ''/'' then d else d @ ''/'') = Some Dir"
proof (cases "last d = CHR ''/''")
  case True
  with assms show ?thesis by simp
next
  case False
  from assms have "d \<noteq> []" by (auto simp: stat_def)
  with False assms show ?thesis
    by (simp add: stat_def strip_slashes_snoc)
qed

text \<open>
  C10. For every URL, \<open>download_file\<close> takes as destination path the destination folder
  joined with what follows the last \<^verbatim>\<open>/\<close> of the URL (the whole URL when it has none). In
  particular, for every URL that ends in \<^verbatim>\<open>/\<close>, that part is empty and the path is the
  destination folder itself, written with a separator at its end; where the folder
  exists, as it does once the program has created its download directory, the path
  exists, and \<open>download_file\<close> skips the URL: it logs the skip and makes no request.
\<close>

theorem destination_is_last_segment:
  "(CHR ''/'' \<notin> set url \<longrightarrow> destination d url = os_path_join d url)
   \<and> (CHR ''/'' \<notin> set seg \<longrightarrow> destination d (pre @ CHR ''/'' # seg) = os_path_join d seg)
   \<and> (stat (disk w) d = Some Dir \<longrightarrow>
        destination d (pre @ ''/'') = (if last d = CHR ''/'' then d else d @ ''/'')
        \<and> stat (disk w) (destination d (pre @ ''/'')) = Some Dir
        \<and> download_file env (pre @ ''/'') d retries w =
            (console_print env (skip_line (destination d (pre @ ''/''))),
             w\<lparr>events := events w @ [(INFO, AlreadyExists (destination d (pre @ ''/'')))]\<rparr>))"
proof (intro conjI impI)
  assume "CHR ''/'' \<notin> set url"
  then show "destination d url = os_path_join d url"
    by (simp add: destination_def py_split_sep_def split_on_no_sep)
next
  assume "CHR ''/'' \<notin> set seg"
  then show "destination d (pre @ CHR ''/'' # seg) = os_path_join d seg"
    by (simp add: destination_def py_split_sep_def last_split_on)
next
  assume dir: "stat (disk w) d = Some Dir"
  then have "d \<noteq> []" by (auto simp: stat_def)
  have "destination d (pre @ ''/'') = os_path_join d []"
    using last_split_on [of "CHR ''/''" "[]" "[]" pre]
    by (simp add: destination_def py_split_sep_def)
  with \<open>d \<noteq> []\<close> show dest: "destination d (pre @ ''/'') = (if last d = CHR ''/'' then d else d @ ''/'')"
    by (simp add: os_path_join_def)
  from stat_dir_slash [OF dir] show there: "stat (disk w) (destination d (pre @ ''/'')) = Some Dir"
    unfolding dest .
  then show "download_file env (pre @ ''/'') d retries w =
      (console_print env (skip_line (destination d (pre @ ''/''))),
       w\<lparr>events := events w @ [(INFO, AlreadyExists (destination d (pre @ ''/'')))]\<rparr>)"
    by (simp add: download_file_def os_path_exists_def log_event_def Let_def)
qed

theorem destination_is_last_segment_witness:
  "CHR ''/'' \<notin> set ''a.torrent''
   \<and> destination ''torrent_files'' ''a.torrent'' = ''torrent_files/a.torrent''
   \<and> destination ''torrent_files'' ''https://archive.org/download/x/a.torrent'' = ''torrent_files/a.torrent''
   \<and> stat (disk fresh_world) ''torrent_files'' = Some Dir
   \<and> destination ''torrent_files'' ''https://archive.org/download/x/'' = ''torrent_files/''
   \<and> stat (disk fresh_world) ''torrent_files/'' = Some Dir
   \<and> download_file serving_env ''https://archive.org/download/x/'' ''torrent_files'' 3 fresh_world =
        (None, fresh_world\<lparr>events := [(INFO, AlreadyExists ''torrent_files/'')]\<rparr>)"
  using destination_is_last_segment [of "''a.torrent''" "''torrent_files''" "''a.torrent''"
      "''https://archive.org/download/x''" fresh_world serving_env 3]
  by (simp add: os_path_join_def stat_def strip_slashes_def fresh_world_def serving_env_def
      server_env_fields)

section \<open>Properties of \<^verbatim>\<open>download_torrent\<close>\<close>

lemma entry_nameD: "entry_name f = Some n \<Longrightarrow> py_getitem f ''name'' = Inr (JStr n)"
  by (auto simp: entry_name_def split: sum.splits json.splits)

lemma torrent_entries_sound:
  "torrent_entries entries = Inr kept \<Longrightarrow> f \<in> set kept \<Longrightarrow>
     f \<in> set entries \<and> (\<exists>name. entry_name f = Some name \<and> endswith name ''.torrent'')"
proof (induction entries arbitrary: kept)
  case Nil
  then show ?case by simp
next
  case (Cons a entries)
  then show ?case
    by (auto simp: py_endswith_def entry_name_def split: sum.splits json.splits if_splits)
qed

lemma matching_entries_sound:
  "matching_entries env k entries = Inr kept \<Longrightarrow> f \<in> set kept \<Longrightarrow>
     f \<in> set entries \<and> (\<forall>name. entry_name f = Some name \<longrightarrow> match_terms (partial_ratio env) name k 70)"
proof (induction entries arbitrary: kept)
  case Nil
  then show ?case by simp
next
  case (Cons a entries)
  then show ?case
    by (auto simp: match_name_def entry_name_def split: sum.splits json.splits if_splits)
qed

lemma match_terms_empty_keyword: "match_terms ratio text [] threshold"
  by (simp add: match_terms_def py_split_def py_lower_def)

lemma select_torrents_sound:
  assumes "select_torrents env metadata keyword = Inr kept" and "f \<in> set kept"
  shows "\<exists>files entries name. py_getitem metadata ''files'' = Inr files \<and> py_iter files = Inr entries
     \<and> f \<in> set entries \<and> entry_name f = Some name \<and> wanted env keyword name"
proof -
  from assms(1) obtain files entries torrents where
    a: "py_getitem metadata ''files'' = Inr files" "py_iter files = Inr entries"
       "torrent_entries entries = Inr torrents"
    and b: "(case keyword of
              Some k \<Rightarrow> if truthy keyword then matching_entries env k torrents else Inr torrents
            | None \<Rightarrow> Inr torrents) = Inr kept"
    by (auto simp: select_torrents_def split: sum.splits)
  have "f \<in> set torrents \<and> (\<forall>name. entry_name f = Some name \<longrightarrow>
      (case keyword of None \<Rightarrow> True | Some k \<Rightarrow> match_terms (partial_ratio env) name k 70))"
  proof (cases keyword)
    case None
    with b assms(2) show ?thesis by simp
  next
    case (Some k)
    show ?thesis
    proof (cases "k = []")
      case True
      with b Some assms(2) show ?thesis
        by (simp add: truthy_def match_terms_empty_keyword)
    next
      case False
      with b Some have "matching_entries env k torrents = Inr kept"
        by (simp add: truthy_def)
      from matching_entries_sound [OF this assms(2)] Some show ?thesis by simp
    qed
  qed
  with torrent_entries_sound [OF a(3), of f] a(1,2) show ?thesis
    by (auto simp: wanted_def)
qed

text \<open>The requests a call adds are all for its own URL.\<close>

lemma retry_loop_requests:
  "\<exists>n. requests (snd (retry_loop env url f r atts w)) = requests w @ replicate n url"
proof (induction atts arbitrary: w)
  case Nil
  show ?case by (rule exI [of _ 0]) (simp add: log_event_def)
next
  case (Cons a atts)
  obtain k w1 where att: "attempt_download env url f w = (k, w1)"
    by (cases "attempt_download env url f w")
  then have w1: "requests w1 = requests w @ [url]"
    using attempt_download_requests [of env url f w] by simp
  show ?case
  proof (cases k)
    case Returned
    with att w1 show ?thesis by (intro exI [of _ 1]) simp
  next
    case (Raised e)
    with att w1 show ?thesis by (intro exI [of _ 1]) simp
  next
    case Retry
    from Cons.IH [of "log_event (INFO, Retrying (a + 1) r) w1"]
    obtain n where "requests (snd (retry_loop env url f r atts
          (log_event (INFO, Retrying (a + 1) r) w1)))
        = requests w @ [url] @ replicate n url"
      by (auto simp: log_event_def w1)
    with att Retry show ?thesis
      by (intro exI [of _ "Suc n"]) simp
  qed
qed

lemma download_file_requests:
  "\<exists>n. requests (snd (download_file env url d r w)) = requests w @ replicate n url"
proof (cases "os_path_exists (disk w) (destination d url)")
  case True
  then show ?thesis
    by (intro exI [of _ 0]) (simp add: download_file_def log_event_def Let_def)
next
  case False
  with retry_loop_requests [of env url "destination d url" r "[0..<nat r]" w]
  show ?thesis by (simp add: download_file_def Let_def)
qed

lemma download_each_requests:
  "\<exists>extra. requests (snd (download_each env ident kept w)) = requests w @ extra
     \<and> (\<forall>u \<in> set extra. \<exists>f \<in> set kept. \<exists>name. py_getitem f ''name'' = Inr name
            \<and> u = torrent_url env ident name)"
proof (induction kept arbitrary: w)
  case Nil
  show ?case by simp
next
  case (Cons a kept)
  show ?case
  proof (cases "py_getitem a ''name''")
    case (Inl e)
    then show ?thesis by simp
  next
    case (Inr name)
    obtain r w1 where run: "download_file env (torrent_url env ident name) (download_dir env)
        (max_retries env) w = (r, w1)"
      by (cases "download_file env (torrent_url env ident name) (download_dir env)
        (max_retries env) w")
    obtain n where n: "requests w1 = requests w @ replicate n (torrent_url env ident name)"
      using download_file_requests [of env "torrent_url env ident name" "download_dir env"
          "max_retries env" w] run by auto
    show ?thesis
    proof (cases r)
      case (Some e)
      with Inr run n show ?thesis
        by (intro exI [of _ "replicate n (torrent_url env ident name)"]) auto
    next
      case None
      from Cons.IH [of w1] obtain extra where
        e: "requests (snd (download_each env ident kept w1)) = requests w1 @ extra"
          "\<forall>u \<in> set extra. \<exists>f \<in> set kept. \<exists>name. py_getitem f ''name'' = Inr name
              \<and> u = torrent_url env ident name"
        by blast
      show ?thesis
      proof (intro exI [of _ "replicate n (torrent_url env ident name) @ extra"] conjI ballI)
        show "requests (snd (download_each env ident (a # kept) w)) =
            requests w @ replicate n (torrent_url env ident name) @ extra"
          using Inr run None e(1) n by simp
      next
        fix u assume "u \<in> set (replicate n (torrent_url env ident name) @ extra)"
        then consider "u = torrent_url env ident name" | "u \<in> set extra" by auto
        then show "\<exists>f \<in> set (a # kept). \<exists>name. py_getitem f ''name'' = Inr name
              \<and> u = torrent_url env ident name"
        proof cases
          case 1
          with Inr show ?thesis by auto
        next
          case 2
          with e(2) show ?thesis by auto
        qed
      qed
    qed
  qed
qed

text \<open>The requests of the \<^verbatim>\<open>try\<close> body: the metadata request, then downloads of kept names.\<close>

lemma resolve_and_download_requests:
  "\<exists>extra. requests (snd (resolve_and_download env ident kw w)) =
       requests w @ metadata_url ident # extra
     \<and> (\<forall>u \<in> set extra. \<exists>metadata files entries file name.
           fetch_json (http_get env (metadata_url ident) (length (requests w))) = Inr metadata
         \<and> py_getitem metadata ''files'' = Inr files \<and> py_iter files = Inr entries
         \<and> file \<in> set entries \<and> entry_name file = Some name \<and> wanted env kw name
         \<and> u = ''https://archive.org/download/'' @ ident @ ''/'' @ name)"
proof -
  let ?g = "http_get env (metadata_url ident) (length (requests w))"
  define w1 where "w1 = w\<lparr>requests := requests w @ [metadata_url ident]\<rparr>"
  have rg: "requests_get env (metadata_url ident) w = (?g, w1)"
    by (simp add: requests_get_def w1_def)
  have r1: "requests w1 = requests w @ [metadata_url ident]"
    by (simp add: w1_def)
  have run1: "resolve_and_download env ident kw w =
     (case fetch_json ?g of
        Inl e \<Rightarrow> (Some e, w1)
      | Inr metadata \<Rightarrow>
          (case py_contains ''files'' metadata of
             Inl e \<Rightarrow> (Some e, w1)
           | Inr False \<Rightarrow>
               (console_print env (no_files_line ident), log_event (WARNING, NoFiles ident) w1)
           | Inr True \<Rightarrow>
               (case select_torrents env metadata kw of
                  Inl e \<Rightarrow> (Some e, w1)
                | Inr torrent_files \<Rightarrow>
                    if torrent_files = []
                    then (console_print env (no_matching_line ident kw),
                          log_event (WARNING, NoMatching ident kw) w1)
                    else download_each env ident torrent_files w1)))"
    unfolding resolve_and_download_def rg by simp
  have none: ?thesis if "requests (snd (resolve_and_download env ident kw w)) = requests w1"
    using that r1 by (intro exI [of _ "[]"]) simp
  show ?thesis
  proof (cases "fetch_json ?g")
    case (Inl e)
    then show ?thesis
      by (intro none) (simp add: run1)
  next
    case metadata: (Inr metadata)
    show ?thesis
    proof (cases "py_contains ''files'' metadata")
      case (Inl e)
      with metadata show ?thesis
        by (intro none) (simp add: run1)
    next
      case has: (Inr has_files)
      show ?thesis
      proof (cases has_files)
        case False
        with metadata has show ?thesis
          by (intro none) (simp add: run1 log_event_def)
      next
        case True
        show ?thesis
        proof (cases "select_torrents env metadata kw")
          case (Inl e)
          with metadata has True show ?thesis
            by (intro none) (simp add: run1)
        next
          case kept: (Inr kept)
          show ?thesis
          proof (cases "kept = []")
            case empty: True
            with metadata has True kept show ?thesis
              by (intro none) (simp add: run1 log_event_def)
          next
            case False
            from download_each_requests [of env ident kept w1] obtain extra where
              e: "requests (snd (download_each env ident kept w1)) = requests w1 @ extra"
                "\<forall>u \<in> set extra. \<exists>f \<in> set kept. \<exists>name. py_getitem f ''name'' = Inr name
                    \<and> u = torrent_url env ident name"
              by blast
            have run: "resolve_and_download env ident kw w = download_each env ident kept w1"
              using metadata has True kept False by (simp add: run1)
            show ?thesis
            proof (intro exI [of _ extra] conjI ballI)
              show "requests (snd (resolve_and_download env ident kw w)) =
                  requests w @ metadata_url ident # extra"
                by (simp add: run e(1) r1)
            next
              fix u assume "u \<in> set extra"
              with e(2) obtain f name where
                f: "f \<in> set kept" "py_getitem f ''name'' = Inr name"
                  "u = torrent_url env ident name"
                by blast
              from select_torrents_sound [OF kept f(1)] obtain files entries n where
                s: "py_getitem metadata ''files'' = Inr files" "py_iter files = Inr entries"
                  "f \<in> set entries" "entry_name f = Some n" "wanted env kw n"
                by blast
              from s(4) f(2) have "name = JStr n"
                by (auto dest: entry_nameD)
              with f(3) have "u = ''https://archive.org/download/'' @ ident @ ''/'' @ n"
                by (simp add: torrent_url_def format_value_def)
              with metadata s show "\<exists>metadata files entries file name.
                  fetch_json ?g = Inr metadata
                \<and> py_getitem metadata ''files'' = Inr files \<and> py_iter files = Inr entries
                \<and> file \<in> set entries \<and> entry_name file = Some name \<and> wanted env kw name
                \<and> u = ''https://archive.org/download/'' @ ident @ ''/'' @ name"
                by blast
            qed
          qed
        qed
      qed
    qed
  qed
qed

lemma download_torrent_requests:
  "requests (snd (download_torrent env ident kw w)) = requests w
   \<or> (\<exists>extra. requests (snd (download_torrent env ident kw w)) =
          requests w @ metadata_url ident # extra
       \<and> (\<forall>u \<in> set extra. \<exists>metadata files entries file name.
             fetch_json (http_get env (metadata_url ident) (length (requests w))) = Inr metadata
           \<and> py_getitem metadata ''files'' = Inr files \<and> py_iter files = Inr entries
           \<and> file \<in> set entries \<and> entry_name file = Some name \<and> wanted env kw name
           \<and> u = ''https://archive.org/download/'' @ ident @ ''/'' @ name))"
proof (cases "console_print env (fetching_line ident)")
  case (Some e)
  then show ?thesis
    by (simp add: download_torrent_def log_event_def)
next
  case None
  let ?w0 = "log_event (INFO, FetchingMetadata (metadata_url ident)) w"
  have same: "requests (snd (download_torrent env ident kw w)) =
      requests (snd (resolve_and_download env ident kw ?w0))"
    using None
    by (cases "resolve_and_download env ident kw ?w0")
      (auto simp: download_torrent_def log_event_def split: option.splits)
  have "requests ?w0 = requests w"
    by (simp add: log_event_def)
  with resolve_and_download_requests [of env ident kw ?w0] same show ?thesis
    by simp
qed

text \<open>
  C8. Only matching files are downloaded. Every entry \<open>download_torrent\<close> hands to
  \<open>download_file\<close> is an entry of the metadata's files whose name ends in \<^verbatim>\<open>.torrent\<close> and,
  when a keyword is supplied, satisfies \<open>match_terms\<close>; and every request the call makes
  after the metadata request is the download URL of such a name. There is no other
  path to a download: no retry and no branch goes round the filter.
\<close>

theorem download_torrent_only_wanted:
  "(select_torrents env metadata keyword = Inr torrent_files \<and> file \<in> set torrent_files \<longrightarrow>
      (\<exists>name. entry_name file = Some name \<and> wanted env keyword name))
   \<and> (u \<in> set (drop (Suc (length (requests w)))
                  (requests (snd (download_torrent env identifier keyword w)))) \<longrightarrow>
      (\<exists>metadata files entries file name.
          fetch_json (http_get env (metadata_url identifier) (length (requests w))) = Inr metadata
        \<and> py_getitem metadata ''files'' = Inr files \<and> py_iter files = Inr entries
        \<and> file \<in> set entries \<and> entry_name file = Some name \<and> wanted env keyword name
        \<and> u = ''https://archive.org/download/'' @ identifier @ ''/'' @ name))"
proof (intro conjI impI)
  assume "select_torrents env metadata keyword = Inr torrent_files \<and> file \<in> set torrent_files"
  then show "\<exists>name. entry_name file = Some name \<and> wanted env keyword name"
    using select_torrents_sound [of env metadata keyword torrent_files "file"] by blast
next
  assume u: "u \<in> set (drop (Suc (length (requests w)))
                  (requests (snd (download_torrent env identifier keyword w))))"
  from download_torrent_requests [of env "identifier" "keyword" w] u obtain extra where
    e: "requests (snd (download_torrent env identifier keyword w)) =
          requests w @ metadata_url identifier # extra"
      "\<forall>u \<in> set extra. \<exists>metadata files entries file name.
           fetch_json (http_get env (metadata_url identifier) (length (requests w))) = Inr metadata
         \<and> py_getitem metadata ''files'' = Inr files \<and> py_iter files = Inr entries
         \<and> file \<in> set entries \<and> entry_name file = Some name \<and> wanted env keyword name
         \<and> u = ''https://archive.org/download/'' @ identifier @ ''/'' @ name"
    by auto
  from u have "u \<in> set extra"
    by (simp add: e(1))
  with e(2) show "\<exists>metadata files entries file name.
          fetch_json (http_get env (metadata_url identifier) (length (requests w))) = Inr metadata
        \<and> py_getitem metadata ''files'' = Inr files \<and> py_iter files = Inr entries
        \<and> file \<in> set entries \<and> entry_name file = Some name \<and> wanted env keyword name
        \<and> u = ''https://archive.org/download/'' @ identifier @ ''/'' @ name"
    by blast
qed

lemma torrent_entries_filter:
  "\<forall>f \<in> set entries. entry_name f \<noteq> None \<Longrightarrow>
     torrent_entries entries =
       Inr (filter (\<lambda>f. endswith (the (entry_name f)) ''.torrent'') entries)"
proof (induction entries)
  case Nil
  show ?case by simp
next
  case (Cons a entries)
  then obtain n where "entry_name a = Some n" by auto
  with Cons entry_nameD [of a n] show ?case
    by (simp add: py_endswith_def)
qed

lemma matching_entries_filter:
  "\<forall>f \<in> set entries. entry_name f \<noteq> None \<Longrightarrow>
     matching_entries env k entries =
       Inr (filter (\<lambda>f. match_terms (partial_ratio env) (the (entry_name f)) k 70) entries)"
proof (induction entries)
  case Nil
  show ?case by simp
next
  case (Cons a entries)
  then obtain n where "entry_name a = Some n" by auto
  with Cons entry_nameD [of a n] show ?case
    by (simp add: match_name_def)
qed

lemma select_torrents_filter:
  assumes "py_getitem metadata ''files'' = Inr files" and "py_iter files = Inr entries"
    and "\<forall>f \<in> set entries. entry_name f \<noteq> None"
  shows "select_torrents env metadata kw =
     Inr (filter (\<lambda>f. wanted env kw (the (entry_name f))) entries)"
proof (cases kw)
  case None
  with assms show ?thesis
    by (simp add: select_torrents_def torrent_entries_filter wanted_def)
next
  case (Some k)
  show ?thesis
  proof (cases "k = []")
    case True
    with Some assms show ?thesis
      by (simp add: select_torrents_def torrent_entries_filter wanted_def truthy_def
          match_terms_empty_keyword)
  next
    case False
    have "\<forall>f \<in> set (filter (\<lambda>f. endswith (the (entry_name f)) ''.torrent'') entries).
        entry_name f \<noteq> None"
      using assms(3) by simp
    from matching_entries_filter [OF this, of env k] False Some assms show ?thesis
      by (simp add: select_torrents_def torrent_entries_filter wanted_def truthy_def)
  qed
qed

lemma py_getitem_contains: "py_getitem v key = Inr x \<Longrightarrow> py_contains key v = Inr True"
  by (auto simp: py_getitem_def py_contains_def split: json.splits option.splits)

lemma matching_entries_blank:
  assumes "\<forall>c \<in> set keyword. is_space c" and "torrent_entries entries = Inr torrent_files"
  shows "matching_entries env keyword torrent_files = Inr torrent_files"
proof -
  have named: "\<forall>f \<in> set torrent_files. entry_name f \<noteq> None"
    using torrent_entries_sound [OF assms(2)] by auto
  have "match_terms (partial_ratio env) name keyword 70" for name
    using assms(1) by (simp add: match_terms_def py_split_def py_lower_blank split_ws_blank)
  then show ?thesis
    by (simp add: matching_entries_filter [OF named])
qed

text \<open>
  C9. For every text, \<open>match_terms\<close> with a keyword that is empty or made of whitespace
  only is true: the list of terms is empty, so no term can fail. Thus a blank keyword
  filters out nothing: the files selected with it are the files selected with no
  keyword.
\<close>

theorem match_terms_blank_keyword:
  assumes "\<forall>c \<in> set keyword. is_space c"
  shows "match_terms ratio text keyword threshold
     \<and> select_torrents env metadata (Some keyword) = select_torrents env metadata None"
proof
  show "match_terms ratio text keyword threshold"
    using assms by (simp add: match_terms_def py_split_def py_lower_blank split_ws_blank)
next
  show "select_torrents env metadata (Some keyword) = select_torrents env metadata None"
    using matching_entries_blank [OF assms, of _ _ env]
    by (auto simp: select_torrents_def split: sum.splits)
qed

text \<open>
  With the console printing its lines, a document without \<^verbatim>\<open>files\<close> and a files array
  without a match end in a warning, with the metadata request as the only request.
\<close>

lemma download_torrent_nothing_to_download:
  "(console_print env (fetching_line identifier) = None
      \<and> fetch_json (http_get env (metadata_url identifier) (length (requests w))) = Inr metadata
      \<and> py_contains ''files'' metadata = Inr False
      \<and> console_print env (no_files_line identifier) = None \<longrightarrow>
     download_torrent env identifier keyword w =
       (None, w\<lparr>requests := requests w @ [metadata_url identifier],
         events := events w @ [(INFO, FetchingMetadata (metadata_url identifier)),
                               (WARNING, NoFiles identifier)]\<rparr>))
   \<and> (console_print env (fetching_line identifier) = None
      \<and> fetch_json (http_get env (metadata_url identifier) (length (requests w))) = Inr metadata
      \<and> py_getitem metadata ''files'' = Inr (JArr entries)
      \<and> (\<forall>file \<in> set entries. \<exists>name. entry_name file = Some name \<and> \<not> wanted env keyword name)
      \<and> console_print env (no_matching_line identifier keyword) = None \<longrightarrow>
     download_torrent env identifier keyword w =
       (None, w\<lparr>requests := requests w @ [metadata_url identifier],
         events := events w @ [(INFO, FetchingMetadata (metadata_url identifier)),
                               (WARNING, NoMatching identifier keyword)]\<rparr>))"
proof (intro conjI impI)
  assume "console_print env (fetching_line identifier) = None
      \<and> fetch_json (http_get env (metadata_url identifier) (length (requests w))) = Inr metadata
      \<and> py_contains ''files'' metadata = Inr False
      \<and> console_print env (no_files_line identifier) = None"
  then show "download_torrent env identifier keyword w =
       (None, w\<lparr>requests := requests w @ [metadata_url identifier],
         events := events w @ [(INFO, FetchingMetadata (metadata_url identifier)),
                               (WARNING, NoFiles identifier)]\<rparr>)"
    by (simp add: download_torrent_def resolve_and_download_def requests_get_def log_event_def)
next
  assume a: "console_print env (fetching_line identifier) = None
      \<and> fetch_json (http_get env (metadata_url identifier) (length (requests w))) = Inr metadata
      \<and> py_getitem metadata ''files'' = Inr (JArr entries)
      \<and> (\<forall>file \<in> set entries. \<exists>name. entry_name file = Some name \<and> \<not> wanted env keyword name)
      \<and> console_print env (no_matching_line identifier keyword) = None"
  then have named: "\<forall>f \<in> set entries. entry_name f \<noteq> None"
    by auto
  from a have "filter (\<lambda>f. wanted env keyword (the (entry_name f))) entries = []"
    by (auto simp: filter_empty_conv)
  with a select_torrents_filter [of metadata "JArr entries" entries env "keyword", OF _ _ named]
  have "select_torrents env metadata keyword = Inr []"
    by (simp add: py_iter_def)
  with a py_getitem_contains [of metadata "''files''" "JArr entries"]
  show "download_torrent env identifier keyword w =
       (None, w\<lparr>requests := requests w @ [metadata_url identifier],
         events := events w @ [(INFO, FetchingMetadata (metadata_url identifier)),
                               (WARNING, NoMatching identifier keyword)]\<rparr>)"
    by (simp add: download_torrent_def resolve_and_download_def requests_get_def log_event_def)
qed

lemma archive_env_fields:
  "can_open (archive_env m d) p"
  "console_print (archive_env m d) line = None"
  "partial_ratio (archive_env m d) = substring_ratio"
  "download_dir (archive_env m d) = ''torrent_files''"
  "max_retries (archive_env m d) = 3"
  by (simp_all add: archive_env_def server_env_def)

lemma archive_env_get:
  "http_get (archive_env m d) ''https://archive.org/metadata/x'' n = json_response m"
  "http_get (archive_env m d) a_url n = d"
  "http_get (archive_env m d)
     ''https://archive.org/advancedsearch.php?q=format:Torrent&fl[]=identifier&rows=1&output=json'' n
     = json_response search_result"
  by (simp_all add: archive_env_def server_env_def archive_server_def a_url_def)

lemma markup_env_fields:
  "http_get (markup_env m d) = http_get (archive_env m d)"
  "partial_ratio (markup_env m d) = substring_ratio"
  "console_print (markup_env m d) = rich_on_closing_b"
  by (simp_all add: markup_env_def archive_env_fields)

lemma fetch_json_response: "fetch_json (json_response doc) = Inr doc"
  by (simp add: fetch_json_def json_response_def raise_for_status_def response_json_def)

lemma x_entry_names:
  "map entry_name x_entries = [Some ''a.torrent'', Some ''b.torrent'', Some ''a_meta.xml'']"
  by (simp add: x_entries_def entry_name_def py_getitem_def)

lemma wanted_a:
  "wanted (archive_env m d) (Some ''a'') ''a.torrent''"
  "\<not> wanted (archive_env m d) (Some ''a'') ''b.torrent''"
  "\<not> wanted (archive_env m d) (Some ''a'') ''a_meta.xml''"
  by (simp_all add: wanted_def endswith_def match_terms_def py_split_def py_lower_def
      lower_char_def is_upper_def is_space_def code_point_def substring_ratio_def
      archive_env_fields)

lemma wanted_closing_b:
  "\<not> wanted (markup_env m d) (Some ''[/b]'') ''a.torrent''"
  "\<not> wanted (markup_env m d) (Some ''[/b]'') ''b.torrent''"
  "\<not> wanted (markup_env m d) (Some ''[/b]'') ''a_meta.xml''"
  by (simp_all add: wanted_def endswith_def match_terms_def py_split_def py_lower_def
      lower_char_def is_upper_def is_space_def code_point_def substring_ratio_def
      markup_env_fields)

lemma x_metadata_files:
  "py_getitem x_metadata ''files'' = Inr (JArr x_entries)"
  "py_contains ''files'' x_metadata = Inr True"
  "py_contains ''files'' bare_metadata = Inr False"
  by (simp_all add: x_metadata_def bare_metadata_def py_getitem_def py_contains_def)

lemma select_x:
  "select_torrents (archive_env m d) x_metadata (Some ''a'') = Inr [JObj [(''name'', JStr ''a.torrent'')]]"
  using select_torrents_filter [of x_metadata "JArr x_entries" x_entries "archive_env m d" "Some ''a''"]
    x_entry_names wanted_a [of m d]
  by (simp add: x_metadata_files py_iter_def x_entries_def)

lemma select_x_closing_b:
  "select_torrents (markup_env m d) x_metadata (Some ''[/b]'') = Inr []"
  using select_torrents_filter [of x_metadata "JArr x_entries" x_entries "markup_env m d" "Some ''[/b]''"]
    x_entry_names wanted_closing_b [of m d]
  by (simp add: x_metadata_files py_iter_def x_entries_def)

lemma torrent_url_a: "torrent_url env ''x'' (JStr ''a.torrent'') = a_url"
  by (simp add: torrent_url_def format_value_def a_url_def)

lemma download_a_serving:
  "download_file (archive_env m (plain_response 200 [''d8:'', ''announce''])) a_url ''torrent_files'' 3
      \<lparr>disk = Map.empty(''torrent_files'' \<mapsto> Dir), requests = rs, events = es\<rparr> =
     (None,
      \<lparr>disk = Map.empty(''torrent_files'' \<mapsto> Dir,
               ''torrent_files/a.torrent'' \<mapsto> File ''d8:announce''),
       requests = rs @ [a_url], events = es @ [(INFO, Downloaded ''torrent_files/a.torrent'')]\<rparr>)"
  by (simp add: download_file_def destination_a_url os_path_exists_def stat_def upt_rec
      numeral_eq_Suc attempt_download_def handle_error_def requests_get_def log_event_def
      archive_env_get archive_env_fields plain_response_def open_wb_def write_chunk_def Let_def)

lemma download_a_failing:
  "download_file (archive_env m (plain_response 500 [])) a_url ''torrent_files'' 3
      \<lparr>disk = Map.empty(''torrent_files'' \<mapsto> Dir), requests = rs, events = es\<rparr> =
     (None,
      \<lparr>disk = Map.empty(''torrent_files'' \<mapsto> Dir),
       requests = rs @ [a_url, a_url, a_url],
       events = es @ [(ERROR, FailedStatus a_url 500), (INFO, Retrying 1 3),
         (ERROR, FailedStatus a_url 500), (INFO, Retrying 2 3),
         (ERROR, FailedStatus a_url 500), (INFO, Retrying 3 3),
         (ERROR, FailedAfter 3 a_url)]\<rparr>)"
  by (simp add: download_file_def destination_a_url os_path_exists_def stat_def upt_rec
      numeral_eq_Suc attempt_download_def handle_error_def requests_get_def log_event_def
      archive_env_get archive_env_fields plain_response_def open_wb_def write_chunk_def Let_def)

lemma download_torrent_x_serving:
  "download_torrent (archive_env x_metadata (plain_response 200 [''d8:'', ''announce''])) ''x'' (Some ''a'')
      \<lparr>disk = Map.empty(''torrent_files'' \<mapsto> Dir), requests = rs, events = es\<rparr> =
     (None,
      \<lparr>disk = Map.empty(''torrent_files'' \<mapsto> Dir,
               ''torrent_files/a.torrent'' \<mapsto> File ''d8:announce''),
       requests = rs @ [''https://archive.org/metadata/x'', a_url],
       events = es @ [(INFO, FetchingMetadata ''https://archive.org/metadata/x''),
                 (INFO, Downloaded ''torrent_files/a.torrent'')]\<rparr>)"
  by (simp add: download_torrent_def resolve_and_download_def requests_get_def log_event_def
      metadata_url_def archive_env_get fetch_json_response x_metadata_files select_x
      py_getitem_def torrent_url_a archive_env_fields download_a_serving)

lemma download_torrent_x_failing:
  "download_torrent (archive_env x_metadata (plain_response 500 [])) ''x'' (Some ''a'')
      \<lparr>disk = Map.empty(''torrent_files'' \<mapsto> Dir), requests = rs, events = es\<rparr> =
     (None,
      \<lparr>disk = Map.empty(''torrent_files'' \<mapsto> Dir),
       requests = rs @ [''https://archive.org/metadata/x'', a_url, a_url, a_url],
       events = es @ [(INFO, FetchingMetadata ''https://archive.org/metadata/x''),
         (ERROR, FailedStatus a_url 500), (INFO, Retrying 1 3),
         (ERROR, FailedStatus a_url 500), (INFO, Retrying 2 3),
         (ERROR, FailedStatus a_url 500), (INFO, Retrying 3 3),
         (ERROR, FailedAfter 3 a_url)]\<rparr>)"
  by (simp add: download_torrent_def resolve_and_download_def requests_get_def log_event_def
      metadata_url_def archive_env_get fetch_json_response x_metadata_files select_x
      py_getitem_def torrent_url_a archive_env_fields download_a_failing)

lemma fresh_world_fields:
  "requests fresh_world = []" "events fresh_world = []"
  "disk fresh_world = Map.empty(''torrent_files'' \<mapsto> Dir)"
  by (simp_all add: fresh_world_def)

lemma download_torrent_x:
  "download_torrent (archive_env x_metadata (plain_response 200 [''d8:'', ''announce''])) ''x'' (Some ''a'') fresh_world =
     (None,
      \<lparr>disk = Map.empty(''torrent_files'' \<mapsto> Dir,
               ''torrent_files/a.torrent'' \<mapsto> File ''d8:announce''),
       requests = [''https://archive.org/metadata/x'', a_url],
       events = [(INFO, FetchingMetadata ''https://archive.org/metadata/x''),
                 (INFO, Downloaded ''torrent_files/a.torrent'')]\<rparr>)"
  using download_torrent_x_serving [of "[]" "[]"] by (simp add: fresh_world_def)

lemma metadata_failed_line_markup:
  "metadata_failed_line env identifier (MarkupError message) =
     ''[red]Failed to get metadata for:[/red] '' @ identifier @ '': '' @ message"
  by (simp add: metadata_failed_line_def exception_text_def)

lemma closing_b_positions:
  "rich_on_closing_b (fetching_line ''x'') = None"
  "rich_on_closing_b (no_matching_line ''x'' (Some ''[/b]'')) = Some (MarkupError (closing_tag_message 76))"
  "rich_on_closing_b (metadata_failed_line env ''x'' (MarkupError (closing_tag_message 76)))
     = Some (MarkupError (closing_tag_message 55))"
  unfolding metadata_failed_line_markup by code_simp+

text \<open>
  C6. Nothing to download is a warning, not an error. Where the console prints its lines
  this holds (\<open>download_torrent_nothing_to_download\<close>). The console line, though, takes
  the keyword as markup: with the keyword \<^verbatim>\<open>[/b]\<close> and an item none of whose files
  matches, the warning is logged, the console line raises inside the \<^verbatim>\<open>try\<close>, the
  handler logs \<^verbatim>\<open>Failed to get metadata\<close> as an error, and its own console line raises
  out of \<open>download_torrent\<close>.
\<close>

theorem closing_tag_keyword_logs_error:
  "download_torrent (markup_env x_metadata (plain_response 500 [])) ''x'' (Some ''[/b]'') fresh_world =
     (Some (MarkupError (closing_tag_message 55)),
      \<lparr>disk = Map.empty(''torrent_files'' \<mapsto> Dir),
       requests = [''https://archive.org/metadata/x''],
       events = [(INFO, FetchingMetadata ''https://archive.org/metadata/x''),
                 (WARNING, NoMatching ''x'' (Some ''[/b]'')),
                 (ERROR, MetadataFailed ''x'' (MarkupError (closing_tag_message 76)))]\<rparr>)"
  by (simp add: download_torrent_def resolve_and_download_def requests_get_def log_event_def
      metadata_url_def markup_env_fields archive_env_get fetch_json_response x_metadata_files
      select_x_closing_b closing_b_positions fresh_world_def)

theorem download_torrent_only_wanted_witness:
  "select_torrents (archive_env x_metadata (plain_response 200 [''d8:'', ''announce'']))
      x_metadata (Some ''a'') = Inr [JObj [(''name'', JStr ''a.torrent'')]]
   \<and> entry_name (JObj [(''name'', JStr ''a.torrent'')]) = Some ''a.torrent''
   \<and> wanted (archive_env x_metadata (plain_response 200 [''d8:'', ''announce''])) (Some ''a'') ''a.torrent''
   \<and> a_url \<in> set (drop (Suc (length (requests fresh_world)))
        (requests (snd (download_torrent (archive_env x_metadata (plain_response 200 [''d8:'', ''announce'']))
           ''x'' (Some ''a'') fresh_world))))
   \<and> (\<exists>metadata files entries file name.
          fetch_json (http_get (archive_env x_metadata (plain_response 200 [''d8:'', ''announce'']))
             (metadata_url ''x'') (length (requests fresh_world))) = Inr metadata
        \<and> py_getitem metadata ''files'' = Inr files \<and> py_iter files = Inr entries
        \<and> file \<in> set entries \<and> entry_name file = Some name
        \<and> wanted (archive_env x_metadata (plain_response 200 [''d8:'', ''announce''])) (Some ''a'') name
        \<and> a_url = ''https://archive.org/download/'' @ ''x'' @ ''/'' @ name)"
proof -
  let ?env = "archive_env x_metadata (plain_response 200 [''d8:'', ''announce''])"
  let ?file = "JObj [(''name'', JStr ''a.torrent'')]"
  have kept: "select_torrents ?env x_metadata (Some ''a'') = Inr [?file] \<and> ?file \<in> set [?file]"
    by (simp add: select_x)
  have named: "entry_name ?file = Some ''a.torrent''"
    by (simp add: entry_name_def py_getitem_def)
  have asked: "a_url \<in> set (drop (Suc (length (requests fresh_world)))
      (requests (snd (download_torrent ?env ''x'' (Some ''a'') fresh_world))))"
    by (simp add: download_torrent_x fresh_world_fields)
  note only = download_torrent_only_wanted
    [of ?env x_metadata "Some ''a''" "[?file]" ?file a_url fresh_world "''x''"]
  from only kept have "\<exists>name. entry_name ?file = Some name \<and> wanted ?env (Some ''a'') name"
    by blast
  with named have "wanted ?env (Some ''a'') ''a.torrent''"
    by simp
  moreover from only asked have "\<exists>metadata files entries file name.
          fetch_json (http_get ?env (metadata_url ''x'') (length (requests fresh_world))) = Inr metadata
        \<and> py_getitem metadata ''files'' = Inr files \<and> py_iter files = Inr entries
        \<and> file \<in> set entries \<and> entry_name file = Some name
        \<and> wanted ?env (Some ''a'') name
        \<and> a_url = ''https://archive.org/download/'' @ ''x'' @ ''/'' @ name"
    by blast
  ultimately show ?thesis
    using kept named asked by blast
qed

lemma blank_characters: "list_all is_space [CHR '' '', CHR 0x09, CHR 0xA0]"
  by code_simp

lemma select_x_all:
  "select_torrents (archive_env m d) x_metadata None =
     Inr [JObj [(''name'', JStr ''a.torrent'')], JObj [(''name'', JStr ''b.torrent'')]]"
  using select_torrents_filter [of x_metadata "JArr x_entries" x_entries "archive_env m d" None]
    x_entry_names
  by (simp add: x_metadata_files py_iter_def x_entries_def wanted_def endswith_def)

theorem match_terms_blank_keyword_witness:
  "list_all is_space [CHR '' '', CHR 0x09, CHR 0xA0]
   \<and> match_terms (\<lambda>term text. 0) ''a.torrent'' [CHR '' '', CHR 0x09, CHR 0xA0] 70
   \<and> match_terms (\<lambda>term text. 0) ''a.torrent'' [] 70
   \<and> select_torrents (archive_env x_metadata (plain_response 500 [])) x_metadata
        (Some [CHR '' '', CHR 0x09, CHR 0xA0]) =
       Inr [JObj [(''name'', JStr ''a.torrent'')], JObj [(''name'', JStr ''b.torrent'')]]"
  using blank_characters
    match_terms_blank_keyword [of "[CHR '' '', CHR 0x09, CHR 0xA0]" "\<lambda>term text. 0" "''a.torrent''" 70
      "archive_env x_metadata (plain_response 500 [])" x_metadata]
    match_terms_blank_keyword [of "[]" "\<lambda>term text. 0" "''a.torrent''" 70
      "archive_env x_metadata (plain_response 500 [])" x_metadata]
  by (simp add: list_all_iff select_x_all)

section \<open>Properties of \<^verbatim>\<open>search_items\<close> and \<^verbatim>\<open>main\<close>\<close>

lemma search_url_one:
  "search_url ''format:Torrent'' 1 =
     ''https://archive.org/advancedsearch.php?q=format:Torrent&fl[]=identifier&rows=1&output=json''"
  by code_simp

lemma search_url_three:
  "search_url ''format:Torrent'' 3 =
     ''https://archive.org/advancedsearch.php?q=format:Torrent&fl[]=identifier&rows=3&output=json''"
  by code_simp

lemma py_iter_len: "py_iter v = Inr xs \<Longrightarrow> py_len v = Inr (length xs)"
  by (auto simp: py_iter_def py_len_def split: json.splits)

lemma py_len_iter: "py_len v = Inr n \<Longrightarrow> \<exists>xs. py_iter v = Inr xs"
  by (auto simp: py_iter_def py_len_def split: json.splits)

text \<open>What \<open>search_items\<close> returns has a length, so \<open>main\<close> can walk it.\<close>

lemma search_docs_sized: "search_docs g = Inr (items, n) \<Longrightarrow> \<exists>xs. py_iter items = Inr xs"
  by (auto simp: search_docs_def py_len_iter split: get_result.splits sum.splits)

lemma search_items_sized: "\<exists>xs. py_iter (fst (search_items env query rows w)) = Inr xs"
proof (cases "search_docs (http_get env (search_url query rows) (length (requests w)))")
  case (Inl e)
  then show ?thesis
    by (simp add: search_items_def requests_get_def log_event_def py_iter_def)
next
  case (Inr found)
  obtain items n where "found = (items, n)"
    by (cases found)
  with Inr search_docs_sized [of _ items n] show ?thesis
    by (simp add: search_items_def requests_get_def log_event_def)
qed

lemma submit_all_identified:
  "map (\<lambda>item. py_getitem item ''identifier'') entries = map Inr identifiers \<Longrightarrow>
     submit_all env keyword entries =
       (Inr (), map (\<lambda>i. (format_value env i, keyword)) identifiers)"
proof (induction entries arbitrary: identifiers)
  case Nil
  then show ?case by simp
next
  case (Cons a entries)
  then obtain i rest where "identifiers = i # rest" "py_getitem a ''identifier'' = Inr i"
    "map (\<lambda>item. py_getitem item ''identifier'') entries = map Inr rest"
    by (cases identifiers) auto
  with Cons.IH [of rest] show ?case by simp
qed

lemma submit_all_unidentified:
  "map (\<lambda>item. py_getitem item ''identifier'') before = map Inr identifiers \<Longrightarrow>
   py_getitem item ''identifier'' = Inl e \<Longrightarrow>
     submit_all env keyword (before @ item # rest) =
       (Inl e, map (\<lambda>i. (format_value env i, keyword)) identifiers)"
proof (induction before arbitrary: identifiers)
  case Nil
  then show ?case by simp
next
  case (Cons a before)
  then obtain i others where "identifiers = i # others" "py_getitem a ''identifier'' = Inr i"
    "map (\<lambda>item. py_getitem item ''identifier'') before = map Inr others"
    by (cases identifiers) auto
  with Cons.IH [of others] Cons.prems(2) show ?case by simp
qed

lemma main_submits:
  "py_iter (fst (search_items env query num_items w)) = Inr entries \<Longrightarrow>
     main env query num_items keyword w =
       (fst (submit_all env keyword entries), snd (submit_all env keyword entries),
        snd (search_items env query num_items w))"
  by (cases "search_items env query num_items w")
     (auto simp: main_def py_iter_len split: prod.splits)




text \<open>
  C7, amended. \<open>main\<close>, given a query, an item count and an optional keyword, returns
  no list of outcomes. It walks the search result, which is always a sequence, in
  order, and for each entry reads the identifier and submits one \<open>download_torrent\<close>
  call. When every entry has an identifier, \<open>main\<close> returns \<^verbatim>\<open>None\<close>, with one call
  submitted per entry in the order of the search result. When an entry has no
  identifier, \<open>main\<close> raises the exception of that lookup at the first such entry, with
  the calls of the entries before it submitted and none for that entry or a later one.
  In both cases what the submitted calls do is not part of what \<open>main\<close> hands back.
\<close>

theorem main_returns_nothing:
  "\<exists>entries. py_iter (fst (search_items env query num_items w)) = Inr entries
     \<and> (map (\<lambda>item. py_getitem item ''identifier'') entries = map Inr identifiers \<longrightarrow>
          main env query num_items keyword w =
            (Inr (), map (\<lambda>i. (format_value env i, keyword)) identifiers,
             snd (search_items env query num_items w)))
     \<and> (entries = before @ item # rest
        \<and> map (\<lambda>item. py_getitem item ''identifier'') before = map Inr submitted
        \<and> py_getitem item ''identifier'' = Inl e \<longrightarrow>
          main env query num_items keyword w =
            (Inl e, map (\<lambda>i. (format_value env i, keyword)) submitted,
             snd (search_items env query num_items w)))"
proof -
  from search_items_sized [of env query num_items w] obtain entries where
    it: "py_iter (fst (search_items env query num_items w)) = Inr entries"
    by blast
  have "main env query num_items keyword w =
      (Inr (), map (\<lambda>i. (format_value env i, keyword)) identifiers,
       snd (search_items env query num_items w))"
    if "map (\<lambda>item. py_getitem item ''identifier'') entries = map Inr identifiers"
    using that by (simp add: main_submits [OF it] submit_all_identified)
  moreover have "main env query num_items keyword w =
      (Inl e, map (\<lambda>i. (format_value env i, keyword)) submitted,
       snd (search_items env query num_items w))"
    if "entries = before @ item # rest
        \<and> map (\<lambda>item. py_getitem item ''identifier'') before = map Inr submitted
        \<and> py_getitem item ''identifier'' = Inl e"
    using that by (simp add: main_submits [OF it] submit_all_unidentified)
  ultimately show ?thesis
    using it by blast
qed

lemma search_x:
  "search_items (archive_env m d) ''format:Torrent'' 1 fresh_world =
     (JArr [JObj [(''identifier'', JStr ''x'')]],
      \<lparr>disk = Map.empty(''torrent_files'' \<mapsto> Dir),
       requests = [''https://archive.org/advancedsearch.php?q=format:Torrent&fl[]=identifier&rows=1&output=json''],
       events = [(INFO, Searching
           ''https://archive.org/advancedsearch.php?q=format:Torrent&fl[]=identifier&rows=1&output=json''),
           (INFO, Found 1)]\<rparr>)"
  by (simp add: search_items_def search_url_one requests_get_def log_event_def archive_env_get
      json_response_def search_docs_def raise_for_status_def response_json_def search_result_def
      py_get_def py_len_def fresh_world_def)

lemma search_gappy:
  "search_items gappy_env ''format:Torrent'' 3 fresh_world =
     (JArr [JObj [(''identifier'', JStr ''x'')], JObj [(''title'', JStr ''t'')],
            JObj [(''identifier'', JStr ''y'')]],
      \<lparr>disk = Map.empty(''torrent_files'' \<mapsto> Dir),
       requests = [''https://archive.org/advancedsearch.php?q=format:Torrent&fl[]=identifier&rows=3&output=json''],
       events = [(INFO, Searching
           ''https://archive.org/advancedsearch.php?q=format:Torrent&fl[]=identifier&rows=3&output=json''),
           (INFO, Found 3)]\<rparr>)"
  by (simp add: search_items_def search_url_three requests_get_def log_event_def gappy_env_def
      server_env_def json_response_def search_docs_def raise_for_status_def response_json_def
      gappy_search_result_def py_get_def py_len_def fresh_world_def)

text \<open>The archive with one item: \<open>main\<close> submits one call, whatever the downloads answer.\<close>

lemma main_x:
  "main (archive_env m d) ''format:Torrent'' 1 (Some ''a'') fresh_world =
     (Inr (), [(''x'', Some ''a'')],
      \<lparr>disk = Map.empty(''torrent_files'' \<mapsto> Dir),
       requests = [''https://archive.org/advancedsearch.php?q=format:Torrent&fl[]=identifier&rows=1&output=json''],
       events = [(INFO, Searching
           ''https://archive.org/advancedsearch.php?q=format:Torrent&fl[]=identifier&rows=1&output=json''),
           (INFO, Found 1)]\<rparr>)"
  by (simp add: main_def search_x py_len_def py_iter_def py_getitem_def format_value_def)

text \<open>
  C7, as the claim states it, fails: \<open>main\<close> has no \<^verbatim>\<open>return\<close> and drops the futures.
  On the archive with one item, \<open>main\<close> hands the same value, \<^verbatim>\<open>None\<close>, to the caller
  and submits the same single call, whether the archive serves the file or answers
  every download with status 500. That call, the only one in the pool, starts from the
  state the search left: in the first archive it ends with the file downloaded, in the
  second with the download given up after three attempts. What happened to the file
  is in the log only.
\<close>

theorem main_return_ignores_outcomes_counterexample:
  "main (archive_env x_metadata (plain_response 200 [''d8:'', ''announce''])) ''format:Torrent'' 1
      (Some ''a'') fresh_world =
     (Inr (), [(''x'', Some ''a'')],
      snd (search_items (archive_env x_metadata (plain_response 200 [''d8:'', ''announce'']))
             ''format:Torrent'' 1 fresh_world))
   \<and> last (events (snd (download_torrent
        (archive_env x_metadata (plain_response 200 [''d8:'', ''announce''])) ''x'' (Some ''a'')
        (snd (search_items (archive_env x_metadata (plain_response 200 [''d8:'', ''announce'']))
               ''format:Torrent'' 1 fresh_world)))))
       = (INFO, Downloaded ''torrent_files/a.torrent'')
   \<and> main (archive_env x_metadata (plain_response 500 [])) ''format:Torrent'' 1
      (Some ''a'') fresh_world =
     (Inr (), [(''x'', Some ''a'')],
      snd (search_items (archive_env x_metadata (plain_response 500 [])) ''format:Torrent'' 1 fresh_world))
   \<and> last (events (snd (download_torrent
        (archive_env x_metadata (plain_response 500 [])) ''x'' (Some ''a'')
        (snd (search_items (archive_env x_metadata (plain_response 500 []))
               ''format:Torrent'' 1 fresh_world)))))
       = (ERROR, FailedAfter 3 a_url)"
  by (simp add: main_x search_x download_torrent_x_serving download_torrent_x_failing)

theorem main_returns_nothing_witness:
  "py_iter (fst (search_items (archive_env x_metadata (plain_response 500 []))
       ''format:Torrent'' 1 fresh_world)) = Inr [JObj [(''identifier'', JStr ''x'')]]
   \<and> map (\<lambda>item. py_getitem item ''identifier'') [JObj [(''identifier'', JStr ''x'')]] = map Inr [JStr ''x'']
   \<and> main (archive_env x_metadata (plain_response 500 [])) ''format:Torrent'' 1 (Some ''a'') fresh_world =
       (Inr (), [(''x'', Some ''a'')],
        \<lparr>disk = Map.empty(''torrent_files'' \<mapsto> Dir),
         requests = [''https://archive.org/advancedsearch.php?q=format:Torrent&fl[]=identifier&rows=1&output=json''],
         events = [(INFO, Searching
             ''https://archive.org/advancedsearch.php?q=format:Torrent&fl[]=identifier&rows=1&output=json''),
             (INFO, Found 1)]\<rparr>)
   \<and> py_iter (fst (search_items gappy_env ''format:Torrent'' 3 fresh_world)) =
       Inr ([JObj [(''identifier'', JStr ''x'')]] @ JObj [(''title'', JStr ''t'')]
            # [JObj [(''identifier'', JStr ''y'')]])
   \<and> py_getitem (JObj [(''title'', JStr ''t'')]) ''identifier'' = Inl (KeyError ''identifier'')
   \<and> main gappy_env ''format:Torrent'' 3 None fresh_world =
       (Inl (KeyError ''identifier''), [(''x'', None)],
        \<lparr>disk = Map.empty(''torrent_files'' \<mapsto> Dir),
         requests = [''https://archive.org/advancedsearch.php?q=format:Torrent&fl[]=identifier&rows=3&output=json''],
         events = [(INFO, Searching
             ''https://archive.org/advancedsearch.php?q=format:Torrent&fl[]=identifier&rows=3&output=json''),
             (INFO, Found 3)]\<rparr>)"
  using
    main_returns_nothing
      [of "archive_env x_metadata (plain_response 500 [])" "''format:Torrent''" 1 fresh_world
        "[JStr ''x'']" "Some ''a''" "[]" "JNull" "[]" "[]" TypeError]
    main_returns_nothing
      [of gappy_env "''format:Torrent''" 3 fresh_world "[]" None
        "[JObj [(''identifier'', JStr ''x'')]]" "JObj [(''title'', JStr ''t'')]"
        "[JObj [(''identifier'', JStr ''y'')]]" "[JStr ''x'']" "KeyError ''identifier''"]
  by (simp add: search_x search_gappy py_iter_def py_getitem_def format_value_def)

end
